theory Spec2Isabelle
  imports Main
begin

section \<open>Python strings\<close>

text \<open>
  A Python \<open>str\<close> is modelled as a \<open>string\<close> (a list of 8-bit characters): ASCII text is
  kept as it is and a character beyond ASCII stands as its UTF-8 bytes. The case
  conversions and the classes of characters below act on the ASCII range and leave
  every other byte alone, so they are Python's on ASCII text; on other text Python goes
  by the Unicode tables (a letter of any script is a word character, a no-break space
  is stripped) and the functions below do not.
\<close>

definition newline :: char where
  "newline = CHR 0x0A"

definition is_upper :: "char \<Rightarrow> bool" where
  "is_upper c = (65 \<le> (of_char c :: nat) \<and> (of_char c :: nat) \<le> 90)"

definition is_lower :: "char \<Rightarrow> bool" where
  "is_lower c = (97 \<le> (of_char c :: nat) \<and> (of_char c :: nat) \<le> 122)"

definition is_digit :: "char \<Rightarrow> bool" where
  "is_digit c = (48 \<le> (of_char c :: nat) \<and> (of_char c :: nat) \<le> 57)"

text \<open>The class \<open>\w\<close> of the \<open>re\<close> module.\<close>

definition is_word_char :: "char \<Rightarrow> bool" where
  "is_word_char c = (is_upper c \<or> is_lower c \<or> is_digit c \<or> c = CHR ''_'')"

text \<open>What \<open>str.strip\<close> removes: tab, line feed, vertical tab, form feed, carriage return,
  the four separators 0x1C..0x1F and the space.\<close>

definition is_space :: "char \<Rightarrow> bool" where
  "is_space c = ((9 \<le> (of_char c :: nat) \<and> (of_char c :: nat) \<le> 13)
     \<or> (28 \<le> (of_char c :: nat) \<and> (of_char c :: nat) \<le> 32))"

definition lower_char :: "char \<Rightarrow> char" where
  "lower_char c = (if is_upper c then char_of ((of_char c :: nat) + 32) else c)"

definition upper_char :: "char \<Rightarrow> char" where
  "upper_char c = (if is_lower c then char_of ((of_char c :: nat) - 32) else c)"

text \<open>\<open>s.lower()\<close>, \<open>s.capitalize()\<close>, \<open>s.strip()\<close>.\<close>

definition lower :: "string \<Rightarrow> string" where
  "lower s = map lower_char s"

definition capitalize :: "string \<Rightarrow> string" where
  "capitalize s = (case s of [] \<Rightarrow> [] | c # cs \<Rightarrow> upper_char c # map lower_char cs)"

definition strip :: "string \<Rightarrow> string" where
  "strip s = rev (dropWhile is_space (rev (dropWhile is_space s)))"

text \<open>\<open>s.startswith(p)\<close> and \<open>p in s\<close>.\<close>

fun starts_with :: "string \<Rightarrow> string \<Rightarrow> bool" where
  "starts_with [] s = True"
| "starts_with (p # ps) [] = False"
| "starts_with (p # ps) (c # cs) = (p = c \<and> starts_with ps cs)"

fun contains :: "string \<Rightarrow> string \<Rightarrow> bool" where
  "contains p [] = (p = [])"
| "contains p (c # cs) = (starts_with p (c # cs) \<or> contains p cs)"

text \<open>\<open>sep.join(xs)\<close>.\<close>

fun join :: "string \<Rightarrow> string list \<Rightarrow> string" where
  "join sep [] = []"
| "join sep [x] = x"
| "join sep (x # y # ys) = x @ sep @ join sep (y # ys)"

text \<open>Truthiness of a string and of an optional string (\<open>None\<close> and \<open>""\<close> are false).\<close>

definition truthy_str :: "string option \<Rightarrow> bool" where
  "truthy_str v = (case v of None \<Rightarrow> False | Some s \<Rightarrow> s \<noteq> [])"


section \<open>The regular expressions of the sources\<close>

text \<open>
  Each shape of pattern the sources hand to \<open>re.search\<close> is a function returning the
  text of group 1 of the leftmost match, \<open>None\<close> when nothing matches. The functions
  with a name in \<open>_at\<close> match at the start of the text they are given; the search tries the
  start positions from left to right.
\<close>

text \<open>\<open>lit(\w+)\<close>: the literal, then the longest run of word characters, one at least.\<close>

fun search_word :: "string \<Rightarrow> string \<Rightarrow> string option" where
  "search_word lit [] = None"
| "search_word lit (c # cs) =
     (if starts_with lit (c # cs)
         \<and> takeWhile is_word_char (drop (length lit) (c # cs)) \<noteq> []
      then Some (takeWhile is_word_char (drop (length lit) (c # cs)))
      else search_word lit cs)"

text \<open>\<open>(\w+)suf\<close> at the start of the text: the run of word characters is taken as long as
  possible and given back one character at a time until \<open>suf\<close> follows.\<close>

definition word_then_at :: "string \<Rightarrow> string \<Rightarrow> string option" where
  "word_then_at suf r =
     map_option (\<lambda>k. take k r)
       (find (\<lambda>k. starts_with suf (drop k r))
          (rev [1 ..< Suc (length (takeWhile is_word_char r))]))"

fun search_word_then :: "string \<Rightarrow> string \<Rightarrow> string \<Rightarrow> string option" where
  "search_word_then lit suf [] = None"
| "search_word_then lit suf (c # cs) =
     (if starts_with lit (c # cs)
      then (case word_then_at suf (drop (length lit) (c # cs)) of
              Some g \<Rightarrow> Some g
            | None \<Rightarrow> search_word_then lit suf cs)
      else search_word_then lit suf cs)"

text \<open>\<open>(.+?)suf\<close> at the start of the text: one character at least, none of them a line
  feed, as few as possible until \<open>suf\<close> follows.\<close>

fun lazy_until_at :: "string \<Rightarrow> string \<Rightarrow> string option" where
  "lazy_until_at suf [] = None"
| "lazy_until_at suf (c # cs) =
     (if c = newline then None
      else if starts_with suf cs then Some [c]
      else map_option (Cons c) (lazy_until_at suf cs))"

fun search_lazy_until :: "string \<Rightarrow> string \<Rightarrow> string \<Rightarrow> string option" where
  "search_lazy_until lit suf [] = None"
| "search_lazy_until lit suf (c # cs) =
     (if starts_with lit (c # cs)
      then (case lazy_until_at suf (drop (length lit) (c # cs)) of
              Some g \<Rightarrow> Some g
            | None \<Rightarrow> search_lazy_until lit suf cs)
      else search_lazy_until lit suf cs)"

text \<open>\<open>(?:\.|$)\<close> after the first character of \<open>(.+?)\<close>: a full stop ends the group, so
  does the end of the text, and so does a line feed that is the last character of the
  text (where \<open>$\<close> matches too).\<close>

fun lazy_end_rest :: "string \<Rightarrow> string option" where
  "lazy_end_rest [] = Some []"
| "lazy_end_rest (c # cs) =
     (if c = CHR ''.'' then Some []
      else if c = newline then (if cs = [] then Some [] else None)
      else map_option (Cons c) (lazy_end_rest cs))"

definition lazy_end_at :: "string \<Rightarrow> string option" where
  "lazy_end_at r =
     (case r of [] \<Rightarrow> None
      | c # cs \<Rightarrow> if c = newline then None else map_option (Cons c) (lazy_end_rest cs))"

text \<open>\<open>(?:a1|a2)?(.+?)(?:\.|$)\<close> at the start of the text: the alternatives are tried in
  order, the empty one last.\<close>

definition opt_lazy_end_at :: "string list \<Rightarrow> string \<Rightarrow> string option" where
  "opt_lazy_end_at alts r =
     (case find (\<lambda>a. starts_with a r \<and> lazy_end_at (drop (length a) r) \<noteq> None) (alts @ [[]]) of
        None \<Rightarrow> None
      | Some a \<Rightarrow> lazy_end_at (drop (length a) r))"

fun search_lazy_end :: "string \<Rightarrow> string list \<Rightarrow> string \<Rightarrow> string option" where
  "search_lazy_end lit alts [] = None"
| "search_lazy_end lit alts (c # cs) =
     (if starts_with lit (c # cs)
      then (case opt_lazy_end_at alts (drop (length lit) (c # cs)) of
              Some g \<Rightarrow> Some g
            | None \<Rightarrow> search_lazy_end lit alts cs)
      else search_lazy_end lit alts cs)"


text \<open>A loop over patterns that returns at the first one that gives a result.\<close>

fun first_match :: "'a option list \<Rightarrow> 'a option" where
  "first_match [] = None"
| "first_match (Some v # rs) = Some v"
| "first_match (None # rs) = first_match rs"

text \<open>\<open>any(phrase in s for phrase in phrases)\<close>.\<close>

definition any_in :: "string list \<Rightarrow> string \<Rightarrow> bool" where
  "any_in phrases s = list_ex (\<lambda>phrase. contains phrase s) phrases"


section \<open>Python values and exceptions\<close>

text \<open>
  The values \<open>json.loads\<close> builds, which are also the values the plan hands to the
  executor: \<open>None\<close>, booleans, integers, strings, lists and dictionaries (an association
  list in insertion order, looked up at the first entry of a key).
\<close>

datatype json =
  JNull
| JBool bool
| JNum int
| JStr string
| JArr "json list"
| JObj "(string \<times> json) list"

fun truthy :: "json \<Rightarrow> bool" where
  "truthy JNull = False"
| "truthy (JBool b) = b"
| "truthy (JNum n) = (n \<noteq> 0)"
| "truthy (JStr s) = (s \<noteq> [])"
| "truthy (JArr xs) = (xs \<noteq> [])"
| "truthy (JObj kvs) = (kvs \<noteq> [])"

fun type_name :: "json \<Rightarrow> string" where
  "type_name JNull = ''NoneType''"
| "type_name (JBool b) = ''bool''"
| "type_name (JNum n) = ''int''"
| "type_name (JStr s) = ''str''"
| "type_name (JArr xs) = ''list''"
| "type_name (JObj kvs) = ''dict''"

text \<open>
  The exceptions below \<open>Exception\<close> that the sources tell apart: the timeout of
  \<open>subprocess.run\<close> (with the command as \<open>%s\<close> prints it and the limit in seconds), a
  failed import, and every other one, kept as the text \<open>str(e)\<close> gives.
\<close>

datatype py_exception =
  TimeoutExpired string nat
| ImportError string
| Error string

definition digit_char :: "nat \<Rightarrow> char" where
  "digit_char d = char_of (48 + d)"

function show_nat :: "nat \<Rightarrow> string" where
  "show_nat n = (if n < 10 then [digit_char n] else show_nat (n div 10) @ [digit_char (n mod 10)])"
  by pat_completeness auto
termination
  by (relation "measure id") auto

definition quote_char :: char where
  "quote_char = CHR 0x27"

text \<open>\<open>str(e)\<close>; the first line is \<open>TimeoutExpired.__str__\<close> of the \<open>subprocess\<close> module.\<close>

fun str_exception :: "py_exception \<Rightarrow> string" where
  "str_exception (TimeoutExpired cmd t) =
     ''Command '' @ [quote_char] @ cmd @ [quote_char] @ '' timed out after '' @ show_nat t @ '' seconds''"
| "str_exception (ImportError msg) = msg"
| "str_exception (Error msg) = msg"


section \<open>user_memory.py: the profile store\<close>

record profile =
  name :: "string option"
  occupation :: "string option"
  interests :: "string list"
  skills :: "string list"
  preferences :: "(string \<times> string) list"
  location :: "string option"

record fact =
  fact_content :: string
  fact_timestamp :: string
  fact_context :: json

record user_memory =
  profile :: profile
  facts :: "fact list"
  user_preferences :: "(string \<times> string) list"
  history_summary :: "string list"
  last_updated :: "string option"

text \<open>
  The memory file, as \<open>_load_memory\<close> sees it: absent, unreadable as JSON, or holding a
  memory. \<open>json.dump\<close> followed by \<open>json.load\<close> is taken to give the memory back.
\<close>

datatype memory_file = Absent | Corrupt | Stored user_memory

text \<open>
  How one run of \<open>_save_memory\<close> ends: the file is rewritten; or \<open>os.makedirs\<close> or
  \<open>open\<close> raises and the file is as it was; or the write raises after \<open>open\<close> has
  truncated the file, which leaves a text that is no JSON document.
\<close>

datatype write_outcome = Written | FailedUntouched | FailedTruncated

text \<open>
  The environment of the store: the outcome of the n-th write and the n-th reading of
  the clock (\<open>datetime.now().isoformat()\<close>). The state counts both.
\<close>

record um_env =
  write_result :: "nat \<Rightarrow> write_outcome"
  now_iso :: "nat \<Rightarrow> string"

record um_state =
  memory :: user_memory
  disk :: memory_file
  writes :: nat
  ticks :: nat

definition create_default_memory :: user_memory where
  "create_default_memory =
     \<lparr> profile = \<lparr> name = None, occupation = None, interests = [], skills = [],
                   preferences = [], location = None \<rparr>,
       facts = [], user_preferences = [], history_summary = [], last_updated = None \<rparr>"

definition load_memory :: "memory_file \<Rightarrow> user_memory" where
  "load_memory f =
     (case f of
        Stored m \<Rightarrow> m
      | Corrupt \<Rightarrow> create_default_memory
      | Absent \<Rightarrow> create_default_memory)"

definition save_memory :: "um_env \<Rightarrow> um_state \<Rightarrow> um_state" where
  "save_memory env st =
     st \<lparr> disk := (case write_result env (writes st) of
                      Written \<Rightarrow> Stored (memory st)
                    | FailedUntouched \<Rightarrow> disk st
                    | FailedTruncated \<Rightarrow> Corrupt),
          writes := Suc (writes st) \<rparr>"

definition extract_name :: "string \<Rightarrow> string option" where
  "extract_name text =
     map_option capitalize
       (first_match
          [ search_word ''my name is '' (lower text),
            search_word ''i am '' (lower text),
            search_word ''mera naam '' (lower text),
            search_word_then ''main '' '' hoon'' (lower text),
            search_word ''call me '' (lower text) ])"

text \<open>One pattern of \<open>_extract_occupation\<close>: the stripped group when it is longer than two
  characters and neither of the two filtered words.\<close>

definition occupation_of :: "string option \<Rightarrow> string option" where
  "occupation_of m =
     (case m of
        None \<Rightarrow> None
      | Some g \<Rightarrow> if length (strip g) > 2 \<and> strip g \<notin> set [''student'', ''working'']
                  then Some (strip g) else None)"

definition extract_occupation :: "string \<Rightarrow> string option" where
  "extract_occupation text =
     first_match
       [ occupation_of (search_lazy_end ''i work as '' [''a '', ''an ''] (lower text)),
         occupation_of (search_lazy_end ''i am '' [''a '', ''an ''] (lower text)),
         occupation_of (search_lazy_until ''main '' '' hoon'' (lower text)),
         occupation_of (search_lazy_end ''kaam karta hoon '' [] (lower text)),
         occupation_of (search_lazy_end ''kaam karti hoon '' [] (lower text)) ]"

definition extract_interests :: "string \<Rightarrow> string list" where
  "extract_interests text =
     map strip (List.map_filter (\<lambda>x. x)
       [ search_lazy_end ''i like '' [] (lower text),
         search_lazy_end ''i love '' [] (lower text),
         search_lazy_until ''mujhe '' '' pasand'' (lower text),
         search_lazy_end ''interested in '' [] (lower text) ])"

definition is_personal_info :: "string \<Rightarrow> bool" where
  "is_personal_info text =
     any_in [''my name'', ''i am'', ''i work'', ''i like'', ''i love'',
             ''mera naam'', ''main hoon'', ''mujhe pasand'', ''kaam karta'', ''kaam karti'']
       (lower text)"

text \<open>The loop of lines 75 to 77: an interest is appended unless the list has it already.\<close>

fun add_interests :: "string list \<Rightarrow> string list \<Rightarrow> string list" where
  "add_interests cur [] = cur"
| "add_interests cur (i # is) =
     add_interests (if i \<in> set cur then cur else cur @ [i]) is"

definition store_name :: "um_env \<Rightarrow> string \<Rightarrow> um_state \<Rightarrow> um_state" where
  "store_name env user_message st =
     (if any_in [''my name is'', ''mera naam'', ''i am'', ''main hoon''] (lower user_message)
      then (if truthy_str (extract_name user_message)
            then save_memory env
                   (st \<lparr> memory := (memory st)
                          \<lparr> profile := (profile (memory st))
                              \<lparr> name := extract_name user_message \<rparr> \<rparr> \<rparr>)
            else st)
      else st)"

definition store_occupation :: "um_env \<Rightarrow> string \<Rightarrow> um_state \<Rightarrow> um_state" where
  "store_occupation env user_message st =
     (if any_in [''i work as'', ''i am a'', ''main'', ''kaam karta'', ''kaam karti'']
           (lower user_message)
      then (if truthy_str (extract_occupation user_message)
            then save_memory env
                   (st \<lparr> memory := (memory st)
                          \<lparr> profile := (profile (memory st))
                              \<lparr> occupation := extract_occupation user_message \<rparr> \<rparr> \<rparr>)
            else st)
      else st)"

definition store_interests :: "um_env \<Rightarrow> string \<Rightarrow> um_state \<Rightarrow> um_state" where
  "store_interests env user_message st =
     (if any_in [''i like'', ''i love'', ''mujhe pasand'', ''interested in'']
           (lower user_message)
      then (if extract_interests user_message \<noteq> []
            then save_memory env
                   (st \<lparr> memory := (memory st)
                          \<lparr> profile := (profile (memory st))
                              \<lparr> interests := add_interests (interests (profile (memory st)))
                                                (extract_interests user_message) \<rparr> \<rparr> \<rparr>)
            else st)
      else st)"

text \<open>\<open>ai_response[:100] if ai_response else ""\<close>: a string or a list is sliced, any
  other value that counts as true cannot be.\<close>

definition response_snippet :: "json \<Rightarrow> py_exception + json" where
  "response_snippet ai_response =
     (if \<not> truthy ai_response then Inr (JStr [])
      else (case ai_response of
              JStr t \<Rightarrow> Inr (JStr (take 100 t))
            | JArr xs \<Rightarrow> Inr (JArr (take 100 xs))
            | _ \<Rightarrow> Inl (Error ([quote_char] @ type_name ai_response @ [quote_char]
                                @ '' object is not subscriptable''))))"

text \<open>Lines 81 to 89. The clock is read for the timestamp before the snippet is cut, so
  a snippet that raises leaves one reading of the clock behind and no fact.\<close>

definition store_fact :: "um_env \<Rightarrow> string \<Rightarrow> json \<Rightarrow> um_state \<Rightarrow> (py_exception + unit) \<times> um_state" where
  "store_fact env user_message ai_response st =
     (if is_personal_info user_message
      then (case response_snippet ai_response of
              Inl e \<Rightarrow> (Inl e, st \<lparr> ticks := Suc (ticks st) \<rparr>)
            | Inr snippet \<Rightarrow>
                (Inr (),
                 save_memory env
                   (st \<lparr> memory := (memory st)
                          \<lparr> facts := facts (memory st) @
                              [\<lparr> fact_content = user_message,
                                 fact_timestamp = now_iso env (ticks st),
                                 fact_context = snippet \<rparr>],
                            last_updated := Some (now_iso env (Suc (ticks st))) \<rparr>,
                        ticks := Suc (Suc (ticks st)) \<rparr>)))
      else (Inr (), st))"

definition extract_and_store_info ::
  "um_env \<Rightarrow> string \<Rightarrow> json \<Rightarrow> um_state \<Rightarrow> (py_exception + unit) \<times> um_state" where
  "extract_and_store_info env user_message ai_response st =
     store_fact env user_message ai_response
       (store_interests env user_message
         (store_occupation env user_message
           (store_name env user_message st)))"

definition get_context_for_ai :: "user_memory \<Rightarrow> string" where
  "get_context_for_ai m =
     (if \<not> truthy_str (name (profile m)) \<and> facts m = [] then []
      else
        ''**User Information (Remember this):**'' @ [newline]
        @ (if truthy_str (name (profile m))
           then ''- Name: '' @ the (name (profile m)) @ [newline] else [])
        @ (if truthy_str (occupation (profile m))
           then ''- Occupation: '' @ the (occupation (profile m)) @ [newline] else [])
        @ (if interests (profile m) \<noteq> []
           then ''- Interests: '' @ join '', '' (interests (profile m)) @ [newline] else [])
        @ (if facts m \<noteq> []
           then [newline] @ ''**Previous conversations:**'' @ [newline]
                @ concat (map (\<lambda>f. ''- '' @ fact_content f @ [newline])
                            (drop (length (facts m) - 5) (facts m)))
           else []))"

definition get_profile :: "um_state \<Rightarrow> profile" where
  "get_profile st = profile (memory st)"

definition clear_memory :: "um_env \<Rightarrow> um_state \<Rightarrow> um_state" where
  "clear_memory env st = save_memory env (st \<lparr> memory := create_default_memory \<rparr>)"


section \<open>Effects\<close>

text \<open>The three signs that open the messages, as their UTF-8 bytes:
  U+2705, U+274C, and U+26A0 followed by U+FE0F.\<close>

definition check_mark :: string where
  "check_mark = [CHR 0xE2, CHR 0x9C, CHR 0x85]"

definition cross_mark :: string where
  "cross_mark = [CHR 0xE2, CHR 0x9D, CHR 0x8C]"

definition warning_sign :: string where
  "warning_sign = [CHR 0xE2, CHR 0x9A, CHR 0xA0, CHR 0xEF, CHR 0xB8, CHR 0x8F]"

text \<open>An ActionResult: the dictionary an operation returns, with its two fixed keys as
  fields and the other entries in the order the source writes them.\<close>

record action_result =
  success :: bool
  message :: string
  extras :: "(string \<times> json) list"

record completed_process =
  returncode :: int
  stdout :: string
  stderr :: string

text \<open>
  A request to the model is kept as the template that builds it and the values the
  template embeds: \<open>AnalysisPrompt user_context command\<close> is the f-string of lines 46
  to 83 of enhanced_ai_handler.py, \<open>CodePrompt t\<close> is
  \<open>"Write clean, well-commented Python code for: "\<close> followed by \<open>t\<close>.
\<close>

datatype prompt = AnalysisPrompt string string | CodePrompt string

text \<open>The operations of the Action Registry, with the arguments of one call.\<close>

datatype call =
  CreateFile json json
| OpenIdle json
| OpenNotepad json
| OpenVscode json
| RunPythonCode json
| ExecuteCommand json
| ListFiles
| ReadFile json
| OpenBrowser json
| OpenYoutube json
| GoogleSearch json
| OpenApplication json
| DeleteFile json

datatype event = Generate prompt | Invoke call

text \<open>
  The environment: the Python runtime, the operating system, the browser driver and the
  model, over a world \<open>'w\<close> they change. A primitive that can raise returns \<open>Inl\<close> of the
  exception. Arguments the sources pass on unchecked stay \<open>json\<close> values, and the
  primitive decides what a value of the wrong type raises. \<open>popen args shell console\<close>
  is \<open>subprocess.Popen\<close> with its \<open>shell\<close> flag and with \<open>CREATE_NEW_CONSOLE\<close> asked
  for or not; \<open>subprocess_run args shell timeout\<close> is \<open>subprocess.run\<close> capturing the
  output as text.
\<close>

record 'w os_env =
  workspace :: string
  sys_executable :: string
  os_name :: string
  api_key :: "string option"
  py_repr :: "json \<Rightarrow> string"
  os_path_join :: "string \<Rightarrow> string \<Rightarrow> string"
  url_quote :: "json \<Rightarrow> py_exception + string"
  json_loads :: "string \<Rightarrow> py_exception + json"
  path_exists :: "string \<Rightarrow> 'w \<Rightarrow> bool"
  write_text :: "string \<Rightarrow> json \<Rightarrow> 'w \<Rightarrow> (py_exception + unit) \<times> 'w"
  read_text :: "string \<Rightarrow> 'w \<Rightarrow> (py_exception + string) \<times> 'w"
  listdir :: "string \<Rightarrow> 'w \<Rightarrow> (py_exception + string list) \<times> 'w"
  remove_file :: "string \<Rightarrow> 'w \<Rightarrow> (py_exception + unit) \<times> 'w"
  popen :: "json \<Rightarrow> bool \<Rightarrow> bool \<Rightarrow> 'w \<Rightarrow> (py_exception + unit) \<times> 'w"
  subprocess_run :: "json \<Rightarrow> bool \<Rightarrow> nat \<Rightarrow> 'w \<Rightarrow> (py_exception + completed_process) \<times> 'w"
  webbrowser_open :: "json \<Rightarrow> 'w \<Rightarrow> (py_exception + unit) \<times> 'w"
  import_browser_automation :: "'w \<Rightarrow> (py_exception + unit) \<times> 'w"
  import_selenium :: "'w \<Rightarrow> (py_exception + unit) \<times> 'w"
  init_driver :: "'w \<Rightarrow> bool \<times> 'w"
  selenium_play :: "string \<Rightarrow> 'w \<Rightarrow> (py_exception + json) \<times> 'w"
  generate_content :: "prompt \<Rightarrow> 'w \<Rightarrow> (py_exception + string option) \<times> 'w"
  memory_env :: um_env

text \<open>
  The state of one handler: the world, the executor's \<open>browser_automation\<close> attribute
  (\<open>None\<close>, or the object with the flag of its driver), the profile store, and the
  trace of the requests to the model and of the calls to the registry.
\<close>

record 'w system =
  world :: 'w
  browser_automation :: "bool option"
  um :: um_state
  trace :: "event list"

type_synonym ('a, 'w) io = "'w system \<Rightarrow> (py_exception + 'a) \<times> 'w system"

definition ret :: "'a \<Rightarrow> ('a, 'w) io" where
  "ret x s = (Inr x, s)"

definition raise :: "py_exception \<Rightarrow> ('a, 'w) io" where
  "raise e s = (Inl e, s)"

definition bind :: "('a, 'w) io \<Rightarrow> ('a \<Rightarrow> ('b, 'w) io) \<Rightarrow> ('b, 'w) io" where
  "bind m f s = (case m s of (Inl e, s') \<Rightarrow> (Inl e, s') | (Inr x, s') \<Rightarrow> f x s')"

text \<open>\<open>try: m except Exception as e: h e\<close>; what \<open>h\<close> raises is not caught.\<close>

definition try_except :: "('a, 'w) io \<Rightarrow> (py_exception \<Rightarrow> ('a, 'w) io) \<Rightarrow> ('a, 'w) io" where
  "try_except m h s = (case m s of (Inl e, s') \<Rightarrow> h e s' | (Inr x, s') \<Rightarrow> (Inr x, s'))"

definition lift_pure :: "py_exception + 'a \<Rightarrow> ('a, 'w) io" where
  "lift_pure r s = (r, s)"

definition lift_world :: "('w \<Rightarrow> (py_exception + 'a) \<times> 'w) \<Rightarrow> ('a, 'w) io" where
  "lift_world p s = (case p (world s) of (r, w') \<Rightarrow> (r, s \<lparr> world := w' \<rparr>))"

text \<open>\<open>str(v)\<close>, as an f-string formats a value.\<close>

definition py_str :: "'w os_env \<Rightarrow> json \<Rightarrow> string" where
  "py_str env v = (case v of JStr s \<Rightarrow> s | _ \<Rightarrow> py_repr env v)"

text \<open>\<open>os.path.join(self.workspace, filename)\<close>: a type error unless the name is a string.\<close>

definition workspace_path :: "'w os_env \<Rightarrow> json \<Rightarrow> py_exception + string" where
  "workspace_path env filename =
     (case filename of
        JStr f \<Rightarrow> Inr (os_path_join env (workspace env) f)
      | _ \<Rightarrow> Inl (Error (''expected str, bytes or os.PathLike object, not '' @ type_name filename)))"

definition failed :: "string \<Rightarrow> action_result" where
  "failed msg = \<lparr> success = False, message = msg, extras = [] \<rparr>"


section \<open>action_executor.py: the Action Registry\<close>

text \<open>
  Each operation is its \<open>try\<close> block (the definition named \<open>_try\<close>) under its
  \<open>except\<close> clauses.
\<close>

definition create_file_try :: "'w os_env \<Rightarrow> json \<Rightarrow> json \<Rightarrow> (action_result, 'w) io" where
  "create_file_try env filename content =
     bind (lift_pure (workspace_path env filename)) (\<lambda>filepath.
     bind (lift_world (write_text env filepath content)) (\<lambda>_.
     ret \<lparr> success = True,
           message = check_mark @ '' File created: '' @ filepath,
           extras = [(''filepath'', JStr filepath)] \<rparr>))"

definition create_file :: "'w os_env \<Rightarrow> json \<Rightarrow> json \<Rightarrow> (action_result, 'w) io" where
  "create_file env filename content =
     try_except (create_file_try env filename content)
       (\<lambda>e. ret (failed (cross_mark @ '' Error creating file: '' @ str_exception e)))"

text \<open>Lines 42 to 44 and 97 to 99: the file is written with a one-line header unless
  it exists.\<close>

definition create_if_missing :: "'w os_env \<Rightarrow> string \<Rightarrow> (unit, 'w) io" where
  "create_if_missing env filepath s =
     (if path_exists env filepath (world s) then ret () s
      else lift_world (write_text env filepath (JStr (''# New Python File'' @ [newline]))) s)"

definition open_idle_try :: "'w os_env \<Rightarrow> json \<Rightarrow> (action_result, 'w) io" where
  "open_idle_try env filename =
     (if truthy filename then
        bind (lift_pure (workspace_path env filename)) (\<lambda>filepath.
        bind (create_if_missing env filepath) (\<lambda>_.
        bind (lift_world (popen env
               (JArr [JStr (sys_executable env), JStr ''-m'', JStr ''idlelib'', JStr filepath])
               True (os_name env = ''nt''))) (\<lambda>_.
        ret \<lparr> success = True,
              message = check_mark @ '' IDLE opened with '' @ py_str env filename,
              extras = [(''filepath'', JStr filepath)] \<rparr>)))
      else
        bind (lift_world (popen env
               (JArr [JStr (sys_executable env), JStr ''-m'', JStr ''idlelib''])
               True (os_name env = ''nt''))) (\<lambda>_.
        ret \<lparr> success = True, message = check_mark @ '' IDLE opened'', extras = [] \<rparr>))"

definition open_idle :: "'w os_env \<Rightarrow> json \<Rightarrow> (action_result, 'w) io" where
  "open_idle env filename =
     try_except (open_idle_try env filename)
       (\<lambda>e. ret (failed (cross_mark @ '' Error opening IDLE: '' @ str_exception e
                           @ ''. Try: VS Code or Notepad instead'')))"

definition open_notepad_try :: "'w os_env \<Rightarrow> json \<Rightarrow> (action_result, 'w) io" where
  "open_notepad_try env filename =
     (if truthy filename then
        bind (lift_pure (workspace_path env filename)) (\<lambda>filepath.
        bind (lift_world (popen env (JArr [JStr ''notepad'', JStr filepath]) False False)) (\<lambda>_.
        ret \<lparr> success = True,
              message = check_mark @ '' Notepad opened with '' @ py_str env filename,
              extras = [] \<rparr>))
      else
        bind (lift_world (popen env (JArr [JStr ''notepad'']) False False)) (\<lambda>_.
        ret \<lparr> success = True, message = check_mark @ '' Notepad opened'', extras = [] \<rparr>))"

definition open_notepad :: "'w os_env \<Rightarrow> json \<Rightarrow> (action_result, 'w) io" where
  "open_notepad env filename =
     try_except (open_notepad_try env filename)
       (\<lambda>e. ret (failed (cross_mark @ '' Error opening Notepad: '' @ str_exception e)))"

definition open_vscode_try :: "'w os_env \<Rightarrow> json \<Rightarrow> (action_result, 'w) io" where
  "open_vscode_try env filename =
     (if truthy filename then
        bind (lift_pure (workspace_path env filename)) (\<lambda>filepath.
        bind (create_if_missing env filepath) (\<lambda>_.
        bind (lift_world (popen env (JArr [JStr ''code'', JStr filepath]) True False)) (\<lambda>_.
        ret \<lparr> success = True,
              message = check_mark @ '' VS Code opened with '' @ py_str env filename,
              extras = [(''filepath'', JStr filepath)] \<rparr>)))
      else
        bind (lift_world (popen env (JArr [JStr ''code'', JStr (workspace env)]) True False)) (\<lambda>_.
        ret \<lparr> success = True,
              message = check_mark @ '' VS Code opened workspace: '' @ workspace env,
              extras = [] \<rparr>))"

definition open_vscode :: "'w os_env \<Rightarrow> json \<Rightarrow> (action_result, 'w) io" where
  "open_vscode env filename =
     try_except (open_vscode_try env filename)
       (\<lambda>e. ret (failed (cross_mark @ '' Error opening VS Code: '' @ str_exception e
                           @ ''. Make sure VS Code is installed.'')))"

text \<open>\<open>result.stdout if result.stdout else result.stderr\<close>.\<close>

definition captured_output :: "completed_process \<Rightarrow> string" where
  "captured_output r = (if stdout r \<noteq> [] then stdout r else stderr r)"

definition run_python_code_try :: "'w os_env \<Rightarrow> json \<Rightarrow> (action_result, 'w) io" where
  "run_python_code_try env code =
     bind (lift_world (write_text env (os_path_join env (workspace env) ''_temp_exec.py'') code)) (\<lambda>_.
     bind (lift_world (subprocess_run env
            (JArr [JStr ''python'', JStr (os_path_join env (workspace env) ''_temp_exec.py'')])
            False 10)) (\<lambda>result.
     ret \<lparr> success = (returncode result = 0),
           message = (if returncode result = 0
                      then check_mark @ '' Code executed successfully''
                      else warning_sign @ '' Code executed with errors''),
           extras = [(''output'', JStr (captured_output result)),
                     (''exit_code'', JNum (returncode result))] \<rparr>))"

definition run_python_code :: "'w os_env \<Rightarrow> json \<Rightarrow> (action_result, 'w) io" where
  "run_python_code env code =
     try_except (run_python_code_try env code)
       (\<lambda>e. case e of
               TimeoutExpired cmd t \<Rightarrow>
                 ret (failed (cross_mark @ '' Code execution timed out (10s limit)''))
             | _ \<Rightarrow> ret (failed (cross_mark @ '' Error executing code: '' @ str_exception e)))"

definition execute_command_try :: "'w os_env \<Rightarrow> json \<Rightarrow> (action_result, 'w) io" where
  "execute_command_try env command =
     bind (lift_world (subprocess_run env command True 30)) (\<lambda>result.
     ret \<lparr> success = (returncode result = 0),
           message = check_mark @ '' Command executed'',
           extras = [(''output'', JStr (captured_output result)),
                     (''exit_code'', JNum (returncode result))] \<rparr>)"

definition execute_command :: "'w os_env \<Rightarrow> json \<Rightarrow> (action_result, 'w) io" where
  "execute_command env command =
     try_except (execute_command_try env command)
       (\<lambda>e. ret (failed (cross_mark @ '' Error executing command: '' @ str_exception e)))"

definition list_files_try :: "'w os_env \<Rightarrow> (action_result, 'w) io" where
  "list_files_try env =
     bind (lift_world (listdir env (workspace env))) (\<lambda>files.
     ret \<lparr> success = True,
           message = check_mark @ '' Found '' @ show_nat (length files) @ '' files'',
           extras = [(''files'', JArr (map JStr files)),
                     (''workspace'', JStr (workspace env))] \<rparr>)"

definition list_files :: "'w os_env \<Rightarrow> (action_result, 'w) io" where
  "list_files env =
     try_except (list_files_try env)
       (\<lambda>e. ret (failed (cross_mark @ '' Error listing files: '' @ str_exception e)))"

definition read_file_try :: "'w os_env \<Rightarrow> json \<Rightarrow> (action_result, 'w) io" where
  "read_file_try env filename =
     bind (lift_pure (workspace_path env filename)) (\<lambda>filepath.
     bind (lift_world (read_text env filepath)) (\<lambda>text.
     ret \<lparr> success = True,
           message = check_mark @ '' File read: '' @ py_str env filename,
           extras = [(''content'', JStr text)] \<rparr>))"

definition read_file :: "'w os_env \<Rightarrow> json \<Rightarrow> (action_result, 'w) io" where
  "read_file env filename =
     try_except (read_file_try env filename)
       (\<lambda>e. ret (failed (cross_mark @ '' Error reading file: '' @ str_exception e)))"

definition open_browser_try :: "'w os_env \<Rightarrow> json \<Rightarrow> (action_result, 'w) io" where
  "open_browser_try env url =
     bind (lift_world (webbrowser_open env url)) (\<lambda>_.
     ret \<lparr> success = True,
           message = check_mark @ '' Browser opened: '' @ py_str env url,
           extras = [] \<rparr>)"

definition open_browser :: "'w os_env \<Rightarrow> json \<Rightarrow> (action_result, 'w) io" where
  "open_browser env url =
     try_except (open_browser_try env url)
       (\<lambda>e. ret (failed (cross_mark @ '' Error opening browser: '' @ str_exception e)))"

definition youtube_results_url :: "string \<Rightarrow> string" where
  "youtube_results_url encoded_query = ''https://www.youtube.com/results?search_query='' @ encoded_query"

text \<open>browser_automation.py, \<open>_init_driver\<close>: the driver is created once; a failure to
  create it is reported as \<open>False\<close>, never raised.\<close>

definition init_driver_io :: "'w os_env \<Rightarrow> (bool, 'w) io" where
  "init_driver_io env s =
     (if browser_automation s = Some True then (Inr True, s)
      else (case init_driver env (world s) of
              (ok, w') \<Rightarrow> (Inr ok, s \<lparr> world := w', browser_automation := Some ok \<rparr>)))"

text \<open>browser_automation.py, \<open>play_youtube_video\<close>. The handler of \<open>ImportError\<close> opens
  the browser itself, and what it raises leaves the method.\<close>

definition play_youtube_video_try :: "'w os_env \<Rightarrow> json \<Rightarrow> (action_result, 'w) io" where
  "play_youtube_video_try env search_query =
     bind (init_driver_io env) (\<lambda>ok.
     if \<not> ok then
       bind (lift_pure (url_quote env search_query)) (\<lambda>encoded_query.
       bind (lift_world (webbrowser_open env (JStr (youtube_results_url encoded_query)))) (\<lambda>_.
       ret \<lparr> success = True,
             message = check_mark @ '' YouTube opened with search: '' @ py_str env search_query
                       @ '' (Install Selenium for auto-play)'',
             extras = [(''note'', JStr ''Run: pip install -r browser_requirements.txt for auto-play feature'')] \<rparr>))
     else
       bind (lift_world (import_selenium env)) (\<lambda>_.
       bind (lift_pure (url_quote env search_query)) (\<lambda>encoded_query.
       bind (lift_world (selenium_play env (youtube_results_url encoded_query))) (\<lambda>video_title.
       ret \<lparr> success = True,
             message = check_mark @ '' Playing video: '' @ py_str env video_title,
             extras = [(''video_title'', video_title)] \<rparr>))))"

definition play_youtube_video :: "'w os_env \<Rightarrow> json \<Rightarrow> (action_result, 'w) io" where
  "play_youtube_video env search_query =
     try_except (play_youtube_video_try env search_query)
       (\<lambda>e. case e of
               ImportError msg \<Rightarrow>
                 bind (lift_pure (url_quote env search_query)) (\<lambda>encoded_query.
                 bind (lift_world (webbrowser_open env (JStr (youtube_results_url encoded_query)))) (\<lambda>_.
                 ret \<lparr> success = True,
                       message = check_mark @ '' YouTube opened with search: ''
                                 @ py_str env search_query,
                       extras = [(''note'', JStr (warning_sign
                                  @ '' Install Selenium for auto-play: pip install -r browser_requirements.txt''))] \<rparr>))
             | _ \<Rightarrow>
                 ret \<lparr> success = False,
                       message = cross_mark @ '' Error: '' @ str_exception e,
                       extras = [(''note'', JStr ''Opened search results instead'')] \<rparr>)"

text \<open>Lines 231 to 236: the automation object is made at the first call; a failed import
  of its module is passed over, any other exception is not.\<close>

definition load_browser_automation :: "'w os_env \<Rightarrow> (unit, 'w) io" where
  "load_browser_automation env s =
     (if browser_automation s = None then
        (case import_browser_automation env (world s) of
           (Inr u, w') \<Rightarrow> (Inr (), s \<lparr> world := w', browser_automation := Some False \<rparr>)
         | (Inl (ImportError msg), w') \<Rightarrow> (Inr (), s \<lparr> world := w' \<rparr>)
         | (Inl e, w') \<Rightarrow> (Inl e, s \<lparr> world := w' \<rparr>))
      else (Inr (), s))"

definition open_youtube_try :: "'w os_env \<Rightarrow> json \<Rightarrow> (action_result, 'w) io" where
  "open_youtube_try env search_query =
     bind (load_browser_automation env) (\<lambda>_ s.
       if browser_automation s \<noteq> None then play_youtube_video env search_query s
       else
         bind (lift_pure (url_quote env search_query)) (\<lambda>encoded_query.
         bind (lift_world (webbrowser_open env (JStr (youtube_results_url encoded_query)))) (\<lambda>_.
         ret \<lparr> success = True,
               message = check_mark @ '' YouTube opened with search: '' @ py_str env search_query,
               extras = [(''url'', JStr (youtube_results_url encoded_query)),
                         (''note'', JStr (warning_sign
                            @ '' For auto-play, install: pip install -r browser_requirements.txt''))] \<rparr>)) s)"

definition open_youtube :: "'w os_env \<Rightarrow> json \<Rightarrow> (action_result, 'w) io" where
  "open_youtube env search_query =
     try_except (open_youtube_try env search_query)
       (\<lambda>e. ret (failed (cross_mark @ '' Error opening YouTube: '' @ str_exception e)))"

definition google_search_try :: "'w os_env \<Rightarrow> json \<Rightarrow> (action_result, 'w) io" where
  "google_search_try env query =
     bind (lift_pure (url_quote env query)) (\<lambda>encoded_query.
     bind (lift_world (webbrowser_open env
            (JStr (''https://www.google.com/search?q='' @ encoded_query)))) (\<lambda>_.
     ret \<lparr> success = True,
           message = check_mark @ '' Google search opened: '' @ py_str env query,
           extras = [(''url'', JStr (''https://www.google.com/search?q='' @ encoded_query))] \<rparr>))"

definition google_search :: "'w os_env \<Rightarrow> json \<Rightarrow> (action_result, 'w) io" where
  "google_search env query =
     try_except (google_search_try env query)
       (\<lambda>e. ret (failed (cross_mark @ '' Error opening Google: '' @ str_exception e)))"

definition app_commands :: "(string \<times> string) list" where
  "app_commands =
     [(''notepad'', ''notepad''), (''calculator'', ''calc''), (''paint'', ''mspaint''),
      (''cmd'', ''cmd''), (''powershell'', ''powershell''), (''explorer'', ''explorer''),
      (''chrome'', ''chrome''), (''edge'', ''msedge''), (''firefox'', ''firefox'')]"

definition open_application_try :: "'w os_env \<Rightarrow> json \<Rightarrow> (action_result, 'w) io" where
  "open_application_try env app_name =
     (case app_name of
        JStr a \<Rightarrow>
          bind (lift_world (popen env
                 (JStr (case map_of app_commands (lower a) of Some c \<Rightarrow> c | None \<Rightarrow> a))
                 True False)) (\<lambda>_.
          ret \<lparr> success = True, message = check_mark @ '' '' @ a @ '' opened'', extras = [] \<rparr>)
      | _ \<Rightarrow>
          raise (Error ([quote_char] @ type_name app_name @ [quote_char]
                        @ '' object has no attribute '' @ [quote_char] @ ''lower'' @ [quote_char])))"

definition open_application :: "'w os_env \<Rightarrow> json \<Rightarrow> (action_result, 'w) io" where
  "open_application env app_name =
     try_except (open_application_try env app_name)
       (\<lambda>e. ret (failed (cross_mark @ '' Error opening '' @ py_str env app_name @ '': ''
                           @ str_exception e)))"

definition delete_file_try :: "'w os_env \<Rightarrow> json \<Rightarrow> (action_result, 'w) io" where
  "delete_file_try env filename =
     bind (lift_pure (workspace_path env filename)) (\<lambda>filepath.
     bind (lift_world (remove_file env filepath)) (\<lambda>_.
     ret \<lparr> success = True,
           message = check_mark @ '' File deleted: '' @ py_str env filename,
           extras = [] \<rparr>))"

definition delete_file :: "'w os_env \<Rightarrow> json \<Rightarrow> (action_result, 'w) io" where
  "delete_file env filename =
     try_except (delete_file_try env filename)
       (\<lambda>e. ret (failed (cross_mark @ '' Error deleting file: '' @ str_exception e)))"

text \<open>One call to the registry, and the \<open>try\<close> block it runs.\<close>

fun run_call :: "'w os_env \<Rightarrow> call \<Rightarrow> (action_result, 'w) io" where
  "run_call env (CreateFile filename content) = create_file env filename content"
| "run_call env (OpenIdle filename) = open_idle env filename"
| "run_call env (OpenNotepad filename) = open_notepad env filename"
| "run_call env (OpenVscode filename) = open_vscode env filename"
| "run_call env (RunPythonCode code) = run_python_code env code"
| "run_call env (ExecuteCommand command) = execute_command env command"
| "run_call env ListFiles = list_files env"
| "run_call env (ReadFile filename) = read_file env filename"
| "run_call env (OpenBrowser url) = open_browser env url"
| "run_call env (OpenYoutube search_query) = open_youtube env search_query"
| "run_call env (GoogleSearch query) = google_search env query"
| "run_call env (OpenApplication app_name) = open_application env app_name"
| "run_call env (DeleteFile filename) = delete_file env filename"


text \<open>A call as the handler makes it: it is recorded in the trace, then run.\<close>

definition invoke :: "'w os_env \<Rightarrow> call \<Rightarrow> (action_result, 'w) io" where
  "invoke env c s = run_call env c (s \<lparr> trace := trace s @ [Invoke c] \<rparr>)"


section \<open>enhanced_ai_handler.py: the Intent Planner and the Plan Executor\<close>

text \<open>\<open>d.get(key, default)\<close>, \<open>d[key]\<close>, \<open>d[key] = v\<close> and \<open>for x in v\<close> on a value that
  may be no dictionary or no sequence.\<close>

definition py_get :: "json \<Rightarrow> string \<Rightarrow> json \<Rightarrow> py_exception + json" where
  "py_get d key dflt =
     (case d of
        JObj kvs \<Rightarrow> Inr (case map_of kvs key of Some v \<Rightarrow> v | None \<Rightarrow> dflt)
      | _ \<Rightarrow> Inl (Error ([quote_char] @ type_name d @ [quote_char]
                          @ '' object has no attribute '' @ [quote_char] @ ''get'' @ [quote_char])))"

definition py_item :: "json \<Rightarrow> string \<Rightarrow> py_exception + json" where
  "py_item d key =
     (case d of
        JObj kvs \<Rightarrow> (case map_of kvs key of
                       Some v \<Rightarrow> Inr v
                     | None \<Rightarrow> Inl (Error ([quote_char] @ key @ [quote_char])))
      | _ \<Rightarrow> Inl (Error ([quote_char] @ type_name d @ [quote_char]
                          @ '' object is not subscriptable'')))"

fun dict_set :: "(string \<times> json) list \<Rightarrow> string \<Rightarrow> json \<Rightarrow> (string \<times> json) list" where
  "dict_set [] key v = [(key, v)]"
| "dict_set ((k, w) # kvs) key v =
     (if k = key then (k, v) # kvs else (k, w) # dict_set kvs key v)"

definition py_set :: "json \<Rightarrow> string \<Rightarrow> json \<Rightarrow> py_exception + json" where
  "py_set d key v =
     (case d of
        JObj kvs \<Rightarrow> Inr (JObj (dict_set kvs key v))
      | _ \<Rightarrow> Inl (Error ([quote_char] @ type_name d @ [quote_char]
                          @ '' object does not support item assignment'')))"

definition py_iter :: "json \<Rightarrow> py_exception + json list" where
  "py_iter v =
     (case v of
        JArr xs \<Rightarrow> Inr xs
      | JStr t \<Rightarrow> Inr (map (\<lambda>c. JStr [c]) t)
      | JObj kvs \<Rightarrow> Inr (map (\<lambda>kv. JStr (fst kv)) kvs)
      | _ \<Rightarrow> Inl (Error ([quote_char] @ type_name v @ [quote_char] @ '' object is not iterable'')))"

text \<open>\<open>v += t\<close> for a string \<open>t\<close>: a string grows by \<open>t\<close>, a list by the characters of
  \<open>t\<close>, nothing else can be added to.\<close>

definition py_iadd_str :: "json \<Rightarrow> string \<Rightarrow> py_exception + json" where
  "py_iadd_str v t =
     (case v of
        JStr u \<Rightarrow> Inr (JStr (u @ t))
      | JArr xs \<Rightarrow> Inr (JArr (xs @ map (\<lambda>c. JStr [c]) t))
      | _ \<Rightarrow> Inl (Error (''unsupported operand type(s) for +=: '' @ [quote_char] @ type_name v
                          @ [quote_char] @ '' and '' @ [quote_char] @ ''str'' @ [quote_char])))"

text \<open>The text of a reply of the model; a function of \<open>re\<close> given \<open>None\<close> raises.\<close>

definition text_of :: "string option \<Rightarrow> py_exception + string" where
  "text_of t =
     (case t of
        Some u \<Rightarrow> Inr u
      | None \<Rightarrow> Inl (Error ''expected string or bytes-like object''))"

text \<open>\<open>re.search(r'\{.*\}', text, re.DOTALL)\<close>: from the first opening brace to the last
  closing brace after it.\<close>

definition json_match :: "string \<Rightarrow> string option" where
  "json_match text =
     (let from_brace = dropWhile (\<lambda>c. c \<noteq> CHR ''{'') text;
          matched = rev (dropWhile (\<lambda>c. c \<noteq> CHR ''}'') (rev from_brace))
      in if matched = [] then None else Some matched)"

text \<open>The fence of a code block in Markdown: three grave accents.\<close>

definition fence :: string where
  "fence = [CHR 0x60, CHR 0x60, CHR 0x60]"

text \<open>The text before the first fence and the text after it.\<close>

fun split_fence :: "string \<Rightarrow> (string \<times> string) option" where
  "split_fence [] = None"
| "split_fence (c # cs) =
     (if starts_with fence (c # cs) then Some ([], drop 3 (c # cs))
      else map_option (\<lambda>(a, b). (c # a, b)) (split_fence cs))"

text \<open>
  The pattern of \<open>_extract_code_blocks\<close> at the start of the text: a fence, the longest
  run of word characters (it may be empty), a line feed, then as little as possible up
  to the next fence. The result is group 1, group 2 and the text after the match.
\<close>

definition fence_match :: "string \<Rightarrow> (string \<times> string \<times> string) option" where
  "fence_match t =
     (if starts_with fence t
      then (case dropWhile is_word_char (drop 3 t) of
              [] \<Rightarrow> None
            | d # body \<Rightarrow>
                if d = newline
                then (case split_fence body of
                        None \<Rightarrow> None
                      | Some (inner, rest) \<Rightarrow>
                          Some (takeWhile is_word_char (drop 3 t), inner, rest))
                else None)
      else None)"

record code_block =
  block_language :: string
  block_code :: string

text \<open>
  \<open>re.findall\<close> with that pattern: the matches from left to right, the search going on
  behind each match. \<open>skip\<close> counts the characters of the last match still to pass.
  A block without a language is labelled \<open>text\<close>, and its code is stripped.
\<close>

fun scan_blocks :: "nat \<Rightarrow> string \<Rightarrow> code_block list" where
  "scan_blocks skip [] = []"
| "scan_blocks skip (c # cs) =
     (if skip > 0 then scan_blocks (skip - 1) cs
      else (case fence_match (c # cs) of
              None \<Rightarrow> scan_blocks 0 cs
            | Some (lang, inner, rest) \<Rightarrow>
                \<lparr> block_language = (if lang \<noteq> [] then lang else ''text''),
                  block_code = strip inner \<rparr>
                # scan_blocks (length cs - length rest) cs))"

definition extract_code_blocks :: "string \<Rightarrow> code_block list" where
  "extract_code_blocks text = scan_blocks 0 text"

text \<open>The dictionary \<open>process_command\<close> returns.\<close>

record reply =
  response :: json
  code :: "string option"
  language :: "string option"
  actions :: "action_result list"

text \<open>\<open>self.client\<close> is made when the key is a string that is not empty.\<close>

definition is_configured :: "'w os_env \<Rightarrow> bool" where
  "is_configured env = truthy_str (api_key env)"

definition not_configured_reply :: reply where
  "not_configured_reply =
     \<lparr> response = JStr (warning_sign
          @ '' AI not configured. Please add your GEMINI_API_KEY to the .env file.''),
       code = None, language = None, actions = [] \<rparr>"

text \<open>A request to the model: it is recorded in the trace, then sent.\<close>

definition ask_model :: "'w os_env \<Rightarrow> prompt \<Rightarrow> (string option, 'w) io" where
  "ask_model env p s = lift_world (generate_content env p) (s \<lparr> trace := trace s @ [Generate p] \<rparr>)"

definition fallback_plan :: "string \<Rightarrow> json" where
  "fallback_plan analysis_text =
     JObj [(''intent'', JStr ''respond''),
           (''actions'', JArr [JObj [(''type'', JStr ''just_respond'')]]),
           (''response'', JStr analysis_text)]"

text \<open>Lines 95 to 104.\<close>

definition parse_plan :: "'w os_env \<Rightarrow> string \<Rightarrow> py_exception + json" where
  "parse_plan env analysis_text =
     (case json_match analysis_text of
        Some m \<Rightarrow> json_loads env m
      | None \<Rightarrow> Inr (fallback_plan analysis_text))"

text \<open>Lines 115 to 126: the value stored under \<open>content\<close> when the step brings none.\<close>

definition generate_file_content :: "'w os_env \<Rightarrow> json \<Rightarrow> (json, 'w) io" where
  "generate_file_content env plan =
     bind (lift_pure (py_item plan ''intent'')) (\<lambda>intent.
     bind (ask_model env (CodePrompt (py_str env intent))) (\<lambda>code_response.
     bind (lift_pure (text_of code_response)) (\<lambda>code_text.
     ret (case extract_code_blocks code_text of
            b # bs \<Rightarrow> JStr (block_code b)
          | [] \<Rightarrow> JStr code_text))))"

definition call_and_append ::
  "'w os_env \<Rightarrow> call \<Rightarrow> action_result list \<Rightarrow> (action_result list, 'w) io" where
  "call_and_append env c action_results =
     bind (invoke env c) (\<lambda>result. ret (action_results @ [result]))"

text \<open>The body of the loop of lines 108 to 168.\<close>

definition execute_action ::
  "'w os_env \<Rightarrow> json \<Rightarrow> json \<Rightarrow> action_result list \<Rightarrow> (action_result list, 'w) io" where
  "execute_action env plan action action_results =
     bind (lift_pure (py_get action ''type'' JNull)) (\<lambda>action_type.
     bind (lift_pure (py_get action ''params'' (JObj []))) (\<lambda>params.
     if action_type = JStr ''create_file'' then
       bind (lift_pure (py_get params ''content'' JNull)) (\<lambda>given.
       bind (if \<not> truthy given
             then bind (generate_file_content env plan) (\<lambda>body. lift_pure (py_set params ''content'' body))
             else ret params) (\<lambda>params'.
       bind (lift_pure (py_get params' ''filename'' (JStr ''script.py''))) (\<lambda>filename.
       bind (lift_pure (py_get params' ''content'' (JStr []))) (\<lambda>body.
       call_and_append env (CreateFile filename body) action_results))))
     else if action_type = JStr ''open_idle'' then
       bind (lift_pure (py_get params ''filename'' JNull)) (\<lambda>filename.
       call_and_append env (OpenIdle filename) action_results)
     else if action_type = JStr ''open_vscode'' then
       bind (lift_pure (py_get params ''filename'' JNull)) (\<lambda>filename.
       call_and_append env (OpenVscode filename) action_results)
     else if action_type = JStr ''run_code'' then
       bind (lift_pure (py_get params ''code'' (JStr []))) (\<lambda>source.
       call_and_append env (RunPythonCode source) action_results)
     else if action_type = JStr ''execute_command'' then
       bind (lift_pure (py_get params ''command'' (JStr []))) (\<lambda>command.
       call_and_append env (ExecuteCommand command) action_results)
     else if action_type = JStr ''open_youtube'' then
       bind (lift_pure (py_get params ''search_query'' (JStr []))) (\<lambda>search_query.
       call_and_append env (OpenYoutube search_query) action_results)
     else if action_type = JStr ''open_browser'' then
       bind (lift_pure (py_get params ''url'' (JStr []))) (\<lambda>url.
       call_and_append env (OpenBrowser url) action_results)
     else if action_type = JStr ''google_search'' then
       bind (lift_pure (py_get params ''query'' (JStr []))) (\<lambda>query.
       call_and_append env (GoogleSearch query) action_results)
     else if action_type = JStr ''open_application'' then
       bind (lift_pure (py_get params ''app_name'' (JStr []))) (\<lambda>app_name.
       call_and_append env (OpenApplication app_name) action_results)
     else ret action_results))"

fun execute_actions ::
  "'w os_env \<Rightarrow> json \<Rightarrow> json list \<Rightarrow> action_result list \<Rightarrow> (action_result list, 'w) io" where
  "execute_actions env plan [] action_results = ret action_results"
| "execute_actions env plan (action # rest) action_results =
     bind (execute_action env plan action action_results) (execute_actions env plan rest)"

text \<open>Lines 176 to 179: the message of each result, and its output when it has one.\<close>

fun append_results :: "'w os_env \<Rightarrow> json \<Rightarrow> action_result list \<Rightarrow> py_exception + json" where
  "append_results env final_response [] = Inr final_response"
| "append_results env final_response (r # rs) =
     (case py_iadd_str final_response ([newline] @ message r) of
        Inl e \<Rightarrow> Inl e
      | Inr with_message \<Rightarrow>
          (case map_of (extras r) ''output'' of
             None \<Rightarrow> append_results env with_message rs
           | Some out \<Rightarrow>
               if truthy out
               then (case py_iadd_str with_message ([newline] @ ''Output: '' @ py_str env out) of
                       Inl e \<Rightarrow> Inl e
                     | Inr with_output \<Rightarrow> append_results env with_output rs)
               else append_results env with_message rs))"

text \<open>Lines 171 to 179.\<close>

definition build_response :: "'w os_env \<Rightarrow> json \<Rightarrow> action_result list \<Rightarrow> py_exception + json" where
  "build_response env plan action_results =
     (case py_get plan ''response'' (JStr ''Done!'') of
        Inl e \<Rightarrow> Inl e
      | Inr final_response \<Rightarrow>
          if action_results \<noteq> []
          then (case py_iadd_str final_response
                       ([newline, newline] @ ''**Actions Performed:**'' @ [newline]) of
                  Inl e \<Rightarrow> Inl e
                | Inr headed \<Rightarrow> append_results env headed action_results)
          else Inr final_response)"

definition store_conversation :: "'w os_env \<Rightarrow> string \<Rightarrow> json \<Rightarrow> (unit, 'w) io" where
  "store_conversation env command final_response s =
     (case extract_and_store_info (memory_env env) command final_response (um s) of
        (r, um') \<Rightarrow> (r, s \<lparr> um := um' \<rparr>))"

text \<open>The \<open>try\<close> block of \<open>process_command\<close>, lines 86 to 193.\<close>

definition process_command_try :: "'w os_env \<Rightarrow> string \<Rightarrow> string \<Rightarrow> (reply, 'w) io" where
  "process_command_try env user_context command =
     bind (ask_model env (AnalysisPrompt user_context command)) (\<lambda>analysis_response.
     bind (lift_pure (text_of analysis_response)) (\<lambda>analysis_text.
     bind (lift_pure (parse_plan env analysis_text)) (\<lambda>plan.
     bind (lift_pure (py_get plan ''actions'' (JArr []))) (\<lambda>listed.
     bind (lift_pure (py_iter listed)) (\<lambda>steps.
     bind (execute_actions env plan steps []) (\<lambda>action_results.
     bind (lift_pure (build_response env plan action_results)) (\<lambda>final_response.
     bind (store_conversation env command final_response) (\<lambda>_.
     ret \<lparr> response = final_response,
           code = (case extract_code_blocks analysis_text of
                     b # bs \<Rightarrow> Some (block_code b) | [] \<Rightarrow> None),
           language = (case extract_code_blocks analysis_text of
                         b # bs \<Rightarrow> Some (block_language b) | [] \<Rightarrow> None),
           actions = action_results \<rparr>))))))))"

text \<open>The \<open>except\<close> clause, lines 195 to 213.\<close>

definition error_reply :: "py_exception \<Rightarrow> reply" where
  "error_reply e =
     (if contains ''429'' (str_exception e) \<or> contains ''quota'' (lower (str_exception e))
         \<or> contains ''RESOURCE_EXHAUSTED'' (str_exception e)
      then \<lparr> response = JStr (warning_sign @ '' **API Quota Limit Reached!**'' @ [newline, newline]
                 @ ''Please wait 30-60 minutes and try again.'' @ [newline]
                 @ ''Check usage: https://aistudio.google.com/apikey''),
             code = None, language = None, actions = [] \<rparr>
      else \<lparr> response = JStr (cross_mark @ '' Error: '' @ str_exception e),
             code = None, language = None, actions = [] \<rparr>)"

definition process_command :: "'w os_env \<Rightarrow> string \<Rightarrow> (reply, 'w) io" where
  "process_command env command s =
     (if \<not> is_configured env then ret not_configured_reply s
      else try_except
             (process_command_try env (get_context_for_ai (memory (um s))) command)
             (\<lambda>e. ret (error_reply e)) s)"


section \<open>Reading the trace and the plan\<close>













section \<open>A sample environment\<close>

text \<open>
  An environment over a world that is the list of the effects so far, in which every
  primitive succeeds. The parser knows one reply of the model, \<open>sample_plan_text\<close>, and
  rejects every other text as \<open>json.loads\<close> rejects a text that is no JSON document.
\<close>

definition sample_plan_text :: string where
  "sample_plan_text = ''{\"intent\": \"notes\", \"actions\": [{\"type\": \"create_file\", \"params\": {\"filename\": \"a.py\"}}, {\"type\": \"list_files\"}, {\"type\": \"open_vscode\", \"params\": {\"filename\": \"a.py\"}}], \"response\": \"On it\"}''"

definition sample_plan :: json where
  "sample_plan =
     JObj [(''intent'', JStr ''notes''),
           (''actions'',
              JArr [JObj [(''type'', JStr ''create_file''),
                          (''params'', JObj [(''filename'', JStr ''a.py'')])],
                    JObj [(''type'', JStr ''list_files'')],
                    JObj [(''type'', JStr ''open_vscode''),
                          (''params'', JObj [(''filename'', JStr ''a.py'')])]]),
           (''response'', JStr ''On it'')]"

definition sample_loads :: "string \<Rightarrow> py_exception + json" where
  "sample_loads t =
     (if t = sample_plan_text then Inr sample_plan
      else Inl (Error ''Expecting property name enclosed in double quotes: line 1 column 2 (char 1)''))"

definition sample_repr :: "json \<Rightarrow> string" where
  "sample_repr v =
     (case v of
        JNull \<Rightarrow> ''None''
      | JBool b \<Rightarrow> (if b then ''True'' else ''False'')
      | JNum n \<Rightarrow> (if n < 0 then ''-'' @ show_nat (nat (- n)) else show_nat (nat n))
      | JStr t \<Rightarrow> t
      | JArr xs \<Rightarrow> (if xs = [] then ''[]'' else ''[...]'')
      | JObj kvs \<Rightarrow> (if kvs = [] then ''{}'' else ''{...}''))"

definition sample_quote :: "json \<Rightarrow> py_exception + string" where
  "sample_quote v =
     (case v of
        JStr t \<Rightarrow> Inr (concat (map (\<lambda>c. if c = CHR '' '' then ''%20'' else [c]) t))
      | _ \<Rightarrow> Inl (Error ''quote_from_bytes() expected bytes''))"

definition sample_reply :: "prompt \<Rightarrow> string" where
  "sample_reply p =
     (case p of
        AnalysisPrompt user_context command \<Rightarrow> sample_plan_text
      | CodePrompt t \<Rightarrow> ''Here you go:'' @ [newline] @ fence @ ''python'' @ [newline]
                         @ ''print(1)'' @ [newline] @ fence @ [newline] @ ''Enjoy.'')"

definition sample_um_env :: um_env where
  "sample_um_env = \<lparr> write_result = (\<lambda>n. Written), now_iso = (\<lambda>n. ''2024-01-01T00:00:00'') \<rparr>"

definition sample_env :: "(string list) os_env" where
  "sample_env =
     \<lparr> workspace = ''/home/user/AI_Workspace'',
       sys_executable = ''/usr/bin/python3'',
       os_name = ''posix'',
       api_key = Some ''key'',
       py_repr = sample_repr,
       os_path_join = (\<lambda>a b. if starts_with ''/'' b then b else a @ ''/'' @ b),
       url_quote = sample_quote,
       json_loads = sample_loads,
       path_exists = (\<lambda>path w. (''write '' @ path) \<in> set w),
       write_text = (\<lambda>path body w. (Inr (), w @ [''write '' @ path])),
       read_text = (\<lambda>path w. (Inr ''text'', w @ [''read '' @ path])),
       listdir = (\<lambda>path w. (Inr [''a.py''], w @ [''listdir '' @ path])),
       remove_file = (\<lambda>path w. (Inr (), w @ [''remove '' @ path])),
       popen = (\<lambda>args shell console w. (Inr (), w @ [''popen''])),
       subprocess_run = (\<lambda>args shell limit w.
          (Inr \<lparr> returncode = 0, stdout = ''ok'', stderr = [] \<rparr>, w @ [''run''])),
       webbrowser_open = (\<lambda>url w. (Inr (), w @ [''browser''])),
       import_browser_automation = (\<lambda>w. (Inl (ImportError ''No module named selenium''), w)),
       import_selenium = (\<lambda>w. (Inl (ImportError ''No module named selenium''), w)),
       init_driver = (\<lambda>w. (False, w)),
       selenium_play = (\<lambda>url w. (Inl (Error ''no driver''), w)),
       generate_content = (\<lambda>p w. (Inr (Some (sample_reply p)), w @ [''model''])),
       memory_env = sample_um_env \<rparr>"

definition sample_memory_state :: um_state where
  "sample_memory_state =
     \<lparr> memory = create_default_memory, disk = Absent, writes = 0, ticks = 0 \<rparr>"

definition sample_state :: "(string list) system" where
  "sample_state =
     \<lparr> world = [], browser_automation = None, um = sample_memory_state, trace = [] \<rparr>"


text \<open>A store that knows a name, in memory and on disk.\<close>

definition riya_memory :: user_memory where
  "riya_memory =
     create_default_memory \<lparr> profile := (profile create_default_memory) \<lparr> name := Some ''Riya'' \<rparr> \<rparr>"

definition riya_state :: um_state where
  "riya_state = \<lparr> memory = riya_memory, disk = Stored riya_memory, writes = 0, ticks = 0 \<rparr>"


text \<open>Three variations of the sample environment: a command that runs past its limit,
  a command that ends with a non-zero exit code, and a disk that refuses a write.\<close>

definition timeout_env :: "(string list) os_env" where
  "timeout_env =
     sample_env \<lparr> subprocess_run :=
       (\<lambda>args shell limit w. (Inl (TimeoutExpired (sample_repr args) limit), w)) \<rparr>"





text \<open>Two more variations: a model that answers in plain words, and one whose answer has
  braces around a text that is no JSON document.\<close>

definition plain_env :: "(string list) os_env" where
  "plain_env =
     sample_env \<lparr> generate_content := (\<lambda>p w. (Inr (Some ''hello there''), w @ [''model''])) \<rparr>"

definition garbled_env :: "(string list) os_env" where
  "garbled_env =
     sample_env \<lparr> generate_content := (\<lambda>p w. (Inr (Some ''{plan}''), w @ [''model''])) \<rparr>"


text \<open>A step that asks for a file and brings no content.\<close>

definition bare_create_step :: json where
  "bare_create_step =
     JObj [(''type'', JStr ''create_file''), (''params'', JObj [(''filename'', JStr ''a.py'')])]"


text \<open>An answer of the model with a space behind the language of its fence, and an
  environment whose model gives that answer and whose disk records what is written.\<close>

definition spaced_fence_reply :: string where
  "spaced_fence_reply = fence @ ''python '' @ [newline] @ ''print(1)'' @ [newline] @ fence"

definition spaced_fence_env :: "(string list) os_env" where
  "spaced_fence_env =
     sample_env \<lparr> generate_content := (\<lambda>p w. (Inr (Some spaced_fence_reply), w @ [''model''])),
                  write_text := (\<lambda>path body w. (Inr (), w @ [''write '' @ path, sample_repr body])) \<rparr>"




text \<open>
  What a plan names, read off the plan alone: a step with one of the nine tags names a
  call to the registry with the parameters of the step; a \<open>create_file\<close> step without
  content names a file whose body is still to be asked for; any other step names
  nothing.
\<close>

datatype planned = Call call | Generated json




text \<open>
  Performing what is named, in order and once each: a call is recorded in the trace, the
  operation of the registry runs, and its result is appended; for a file without content
  the body is asked for first (lines 115 to 126). An exception ends the run.
\<close>

definition registry_call :: "'w os_env \<Rightarrow> call \<Rightarrow> (action_result, 'w) io" where
  "registry_call env c s = run_call env c (s \<lparr> trace := trace s @ [Invoke c] \<rparr>)"

fun perform ::
  "'w os_env \<Rightarrow> json \<Rightarrow> planned list \<Rightarrow> action_result list \<Rightarrow> (action_result list, 'w) io" where
  "perform env plan [] rs = ret rs"
| "perform env plan (Call c # ps) rs =
     bind (registry_call env c) (\<lambda>r. perform env plan ps (rs @ [r]))"
| "perform env plan (Generated filename # ps) rs =
     bind (generate_file_content env plan) (\<lambda>body.
     bind (registry_call env (CreateFile filename body)) (\<lambda>r. perform env plan ps (rs @ [r])))"




section \<open>The profile store: what one message stores\<close>

lemma store_name_riya:
  "name (profile (memory (store_name env ''my name is Riya'' st))) = Some ''Riya''"
proof -
  have trigger: "any_in [''my name is'', ''mera naam'', ''i am'', ''main hoon'']
                   (lower ''my name is Riya'')"
    by code_simp
  have found: "extract_name ''my name is Riya'' = Some ''Riya''"
    by code_simp
  show ?thesis
    by (simp add: store_name_def trigger found truthy_str_def save_memory_def)
qed

lemma store_occupation_riya:
  "store_occupation env ''my name is Riya'' st = st"
proof -
  have no_trigger: "\<not> any_in [''i work as'', ''i am a'', ''main'', ''kaam karta'', ''kaam karti'']
                        (lower ''my name is Riya'')"
    by code_simp
  show ?thesis
    by (simp add: store_occupation_def no_trigger)
qed

lemma store_interests_riya:
  "store_interests env ''my name is Riya'' st = st"
proof -
  have no_trigger: "\<not> any_in [''i like'', ''i love'', ''mujhe pasand'', ''interested in'']
                        (lower ''my name is Riya'')"
    by code_simp
  show ?thesis
    by (simp add: store_interests_def no_trigger)
qed

lemma store_fact_keeps_profile:
  "profile (memory (snd (store_fact env user_message ai_response st))) = profile (memory st)"
  by (simp add: store_fact_def save_memory_def split: sum.splits)

text \<open>
  Claim C8. After \<open>extract_and_store_info\<close> is called with the command text
  \<open>my name is Riya\<close>, the name of the stored profile is \<open>Riya\<close>: whatever the response
  text, the profile before the call, the outcome of the writes and the clock.
\<close>

theorem name_is_riya_after_extract:
  "name (profile (memory (snd (extract_and_store_info env ''my name is Riya'' ai_response st))))
     = Some ''Riya''"
  by (simp add: extract_and_store_info_def store_fact_keeps_profile store_interests_riya
        store_occupation_riya store_name_riya)

section \<open>The profile store: clearing and loading\<close>

text \<open>
  Claim C7, as stated, fails: when the write of \<open>clear_memory\<close> raises before the file is
  opened, \<open>_save_memory\<close> catches the exception and the file keeps the old profile, which
  a later load returns with its name.
\<close>

theorem clear_then_load_counterexample:
  "name (profile (load_memory (disk
      (clear_memory (sample_um_env \<lparr> write_result := (\<lambda>n. FailedUntouched) \<rparr>) riya_state))))
     = Some ''Riya''"
  by (simp add: clear_memory_def save_memory_def riya_state_def riya_memory_def load_memory_def
        sample_um_env_def)

text \<open>
  Claim C7, amended. After \<open>clear_memory\<close> the memory held by the store is the default
  shape, and loading the file gives the default shape whenever the write did not fail
  before the file was opened. The default shape has no facts, no name, occupation or
  location, no interests or skills, no preferences and no time of last update.
\<close>

theorem clear_then_load:
  "memory (clear_memory env st) = create_default_memory
   \<and> (write_result env (writes st) \<noteq> FailedUntouched \<longrightarrow>
        load_memory (disk (clear_memory env st)) = create_default_memory)
   \<and> facts create_default_memory = []
   \<and> name (profile create_default_memory) = None
   \<and> occupation (profile create_default_memory) = None
   \<and> location (profile create_default_memory) = None
   \<and> interests (profile create_default_memory) = []
   \<and> skills (profile create_default_memory) = []
   \<and> preferences (profile create_default_memory) = []
   \<and> user_preferences create_default_memory = []
   \<and> last_updated create_default_memory = None"
  by (cases "write_result env (writes st)")
     (simp_all add: clear_memory_def save_memory_def load_memory_def create_default_memory_def)

theorem clear_then_load_witness:
  "write_result sample_um_env (writes riya_state) \<noteq> FailedUntouched
   \<and> load_memory (disk (clear_memory sample_um_env riya_state)) = create_default_memory
   \<and> memory (clear_memory sample_um_env riya_state) = create_default_memory"
  using clear_then_load [of sample_um_env riya_state]
  by (simp add: sample_um_env_def)


section \<open>The profile store: the context for the model\<close>

text \<open>
  Claim C9, evaluated where it fails. After the message \<open>main doctor hoon\<close> the profile
  has the occupation \<open>doctor\<close>, and after \<open>interested in chess\<close> it has the interest
  \<open>chess\<close>; neither message sets a name or stores a fact, and \<open>get_context_for_ai\<close>
  returns the empty text, with no occupation and no interest in it.
\<close>

theorem context_omits_occupation_and_interests:
  "occupation (profile (memory (snd (extract_and_store_info sample_um_env ''main doctor hoon''
      (JStr ''ok'') sample_memory_state)))) = Some ''doctor''
   \<and> get_context_for_ai (memory (snd (extract_and_store_info sample_um_env ''main doctor hoon''
      (JStr ''ok'') sample_memory_state))) = []
   \<and> interests (profile (memory (snd (extract_and_store_info sample_um_env ''interested in chess''
      (JStr ''ok'') sample_memory_state)))) = [''chess'']
   \<and> get_context_for_ai (memory (snd (extract_and_store_info sample_um_env ''interested in chess''
      (JStr ''ok'') sample_memory_state))) = []"
  by code_simp

section \<open>Facts about strings\<close>

lemma starts_with_iff: "starts_with p s \<longleftrightarrow> (\<exists>b. s = p @ b)"
  by (induction p s rule: starts_with.induct) auto

lemma contains_iff: "contains p s \<longleftrightarrow> (\<exists>a b. s = a @ p @ b)"
proof (induction s)
  case Nil
  then show ?case by auto
next
  case (Cons c cs)
  show ?case
  proof
    assume "contains p (c # cs)"
    then consider "starts_with p (c # cs)" | "contains p cs" by auto
    then show "\<exists>a b. c # cs = a @ p @ b"
    proof cases
      case 1
      then obtain b where "c # cs = p @ b" by (auto simp: starts_with_iff)
      then have "c # cs = [] @ p @ b" by simp
      then show ?thesis by blast
    next
      case 2
      then obtain a b where "cs = a @ p @ b" using Cons.IH by blast
      then have "c # cs = (c # a) @ p @ b" by simp
      then show ?thesis by blast
    qed
  next
    assume "\<exists>a b. c # cs = a @ p @ b"
    then obtain a b where ab: "c # cs = a @ p @ b" by blast
    show "contains p (c # cs)"
    proof (cases a)
      case Nil
      with ab have "starts_with p (c # cs)" by (auto simp: starts_with_iff)
      then show ?thesis by simp
    next
      case (Cons d ds)
      with ab have "cs = ds @ p @ b" by simp
      then have "contains p cs" using Cons.IH by blast
      then show ?thesis by simp
    qed
  qed
qed

lemma contains_mid: "contains p (a @ p @ b)"
  by (auto simp: contains_iff)







section \<open>The Action Registry: shell commands\<close>



text \<open>
  Claim C3. When the process of \<open>execute_command\<close> runs past the limit,
  \<open>subprocess.run\<close> raises \<open>TimeoutExpired\<close>. The result then has \<open>success\<close> false, and
  its message is the text of that exception behind \<open>Error executing command:\<close>, which
  says that the command timed out and after how many seconds.
\<close>

theorem execute_command_timeout:
  assumes "subprocess_run env command True 30 (world s) = (Inl (TimeoutExpired cmd t), w')"
  shows "execute_command env command s
           = (Inr \<lparr> success = False,
                    message = cross_mark @ '' Error executing command: Command '' @ [quote_char]
                              @ cmd @ [quote_char] @ '' timed out after '' @ show_nat t
                              @ '' seconds'',
                    extras = [] \<rparr>,
              s \<lparr> world := w' \<rparr>)
         \<and> contains ''timed out''
               (cross_mark @ '' Error executing command: Command '' @ [quote_char]
                @ cmd @ [quote_char] @ '' timed out after '' @ show_nat t @ '' seconds'')"
proof
  show "execute_command env command s
          = (Inr \<lparr> success = False,
                   message = cross_mark @ '' Error executing command: Command '' @ [quote_char]
                             @ cmd @ [quote_char] @ '' timed out after '' @ show_nat t
                             @ '' seconds'',
                   extras = [] \<rparr>,
             s \<lparr> world := w' \<rparr>)"
    using assms
    by (simp add: execute_command_def execute_command_try_def try_except_def bind_def ret_def
          lift_world_def failed_def)
next
  have "cross_mark @ '' Error executing command: Command '' @ [quote_char]
          @ cmd @ [quote_char] @ '' timed out after '' @ show_nat t @ '' seconds''
        = (cross_mark @ '' Error executing command: Command '' @ [quote_char] @ cmd
             @ [quote_char] @ '' '')
          @ ''timed out'' @ ('' after '' @ show_nat t @ '' seconds'')"
    by simp
  then show "contains ''timed out''
               (cross_mark @ '' Error executing command: Command '' @ [quote_char]
                @ cmd @ [quote_char] @ '' timed out after '' @ show_nat t @ '' seconds'')"
    by (metis contains_mid)
qed

theorem execute_command_timeout_witness:
  "subprocess_run timeout_env (JStr ''sleep 100'') True 30 (world sample_state)
     = (Inl (TimeoutExpired ''sleep 100'' 30), [])
   \<and> fst (execute_command timeout_env (JStr ''sleep 100'') sample_state)
     = Inr \<lparr> success = False,
             message = cross_mark @ '' Error executing command: Command '' @ [quote_char]
                       @ ''sleep 100'' @ [quote_char] @ '' timed out after 30 seconds'',
             extras = [] \<rparr>"
proof -
  have late: "subprocess_run timeout_env (JStr ''sleep 100'') True 30 (world sample_state)
                = (Inl (TimeoutExpired ''sleep 100'' 30), [])"
    by (simp add: timeout_env_def sample_env_def sample_state_def sample_repr_def)
  have limit: "show_nat 30 = ''30''"
    by code_simp
  show ?thesis
    using late limit execute_command_timeout [OF late] by simp
qed


section \<open>The Action Registry: no exception leaves an operation\<close>






section \<open>The handler without a key\<close>

text \<open>
  Claim C5. When the key of the model is absent, \<open>process_command\<close> returns the fixed
  reply that says so, with an empty list of actions, and leaves the whole state as it
  was: the world, the profile store and the trace, so no request and no call was made.
\<close>

theorem not_configured_no_action:
  assumes "api_key env = None"
  shows "process_command env command s = (Inr not_configured_reply, s)
         \<and> response not_configured_reply
             = JStr (warning_sign
                 @ '' AI not configured. Please add your GEMINI_API_KEY to the .env file.'')
         \<and> actions not_configured_reply = []"
  using assms
  by (simp add: process_command_def is_configured_def truthy_str_def ret_def
        not_configured_reply_def)

theorem not_configured_no_action_witness:
  "api_key (sample_env \<lparr> api_key := None \<rparr>) = None
   \<and> process_command (sample_env \<lparr> api_key := None \<rparr>) ''open youtube'' sample_state
       = (Inr not_configured_reply, sample_state)"
  using not_configured_no_action
          [of "sample_env \<lparr> api_key := None \<rparr>" "''open youtube''" sample_state]
  by simp


section \<open>The Intent Planner: replies that hold no plan\<close>

lemma process_command_returns:
  "\<exists>r. fst (process_command env command s) = Inr r"
  by (simp add: process_command_def try_except_def ret_def split: prod.splits sum.splits)

lemma store_fact_text:
  "fst (store_fact env user_message (JStr t) st) = Inr ()"
  by (simp add: store_fact_def response_snippet_def)

lemma store_conversation_text:
  "fst (store_conversation env command (JStr t) s) = Inr ()"
  by (simp add: store_conversation_def extract_and_store_info_def store_fact_text
        split: prod.splits)
     (metis fst_conv store_fact_text)

lemma ask_model_eq:
  "generate_content env p (world s) = (r, w') \<Longrightarrow>
     ask_model env p s = (r, s \<lparr> trace := trace s @ [Generate p], world := w' \<rparr>)"
  by (simp add: ask_model_def lift_world_def)

lemma execute_fallback_steps:
  "execute_actions env plan [JObj [(''type'', JStr ''just_respond'')]] [] s = (Inr [], s)"
  by (simp add: execute_action_def bind_def lift_pure_def py_get_def ret_def)

lemma build_response_fallback:
  "build_response env (fallback_plan text) [] = Inr (JStr text)"
  by (simp add: build_response_def fallback_plan_def py_get_def)

lemma process_command_fallback:
  assumes cfg: "is_configured env"
    and reply: "generate_content env
                  (AnalysisPrompt (get_context_for_ai (memory (um s))) command) (world s)
                 = (Inr (Some text), w')"
    and nomatch: "json_match text = None"
  shows "\<exists>r. fst (process_command env command s) = Inr r \<and> response r = JStr text
             \<and> actions r = []"
proof -
  define s1 where
    "s1 = s \<lparr> trace := trace s
                  @ [Generate (AnalysisPrompt (get_context_for_ai (memory (um s))) command)],
              world := w' \<rparr>"
  have asked: "ask_model env (AnalysisPrompt (get_context_for_ai (memory (um s))) command) s
                 = (Inr (Some text), s1)"
    using ask_model_eq [OF reply] by (simp add: s1_def)
  have plan: "parse_plan env text = Inr (fallback_plan text)"
    using nomatch by (simp add: parse_plan_def)
  have listed: "py_get (fallback_plan text) ''actions'' (JArr [])
                  = Inr (JArr [JObj [(''type'', JStr ''just_respond'')]])"
    by (simp add: fallback_plan_def py_get_def)
  have steps: "py_iter (JArr [JObj [(''type'', JStr ''just_respond'')]])
                 = Inr [JObj [(''type'', JStr ''just_respond'')]]"
    by (simp add: py_iter_def)
  obtain s2 where stored: "store_conversation env command (JStr text) s1 = (Inr (), s2)"
    by (metis store_conversation_text prod.collapse)
  have "process_command_try env (get_context_for_ai (memory (um s))) command s
          = (Inr \<lparr> response = JStr text,
                   code = (case extract_code_blocks text of
                             b # bs \<Rightarrow> Some (block_code b) | [] \<Rightarrow> None),
                   language = (case extract_code_blocks text of
                                 b # bs \<Rightarrow> Some (block_language b) | [] \<Rightarrow> None),
                   actions = [] \<rparr>, s2)"
    unfolding process_command_try_def
    by (simp add: bind_def lift_pure_def asked plan listed steps execute_fallback_steps
          build_response_fallback stored text_of_def ret_def del: execute_actions.simps)
  then show ?thesis
    using cfg by (simp add: process_command_def try_except_def)
qed

text \<open>A text in braces that the parser rejects: the exception goes to the \<open>except\<close>
  clause of \<open>process_command\<close>.\<close>

lemma process_command_parse_error:
  assumes cfg: "is_configured env"
    and reply: "generate_content env
                  (AnalysisPrompt (get_context_for_ai (memory (um s))) command) (world s)
                 = (Inr (Some text), w')"
    and matched: "json_match text = Some m"
    and failed: "json_loads env m = Inl e"
  shows "fst (process_command env command s) = Inr (error_reply e)"
proof -
  have plan: "parse_plan env text = Inl e"
    using matched failed by (simp add: parse_plan_def)
  have "fst (process_command_try env (get_context_for_ai (memory (um s))) command s) = Inl e"
    unfolding process_command_try_def
    by (simp add: bind_def lift_pure_def ask_model_eq [OF reply] plan text_of_def)
  then show ?thesis
    using cfg
    by (cases "process_command_try env (get_context_for_ai (memory (um s))) command s")
       (simp add: process_command_def try_except_def ret_def)
qed

text \<open>A reply without braces takes the fallback of lines 98 to 104, and no reply makes
  \<open>process_command\<close> raise.\<close>

lemma reply_without_braces:
  assumes cfg: "is_configured env"
    and reply: "generate_content env
                  (AnalysisPrompt (get_context_for_ai (memory (um s))) command) (world s)
                 = (Inr (Some text), w')"
  shows "(\<exists>r. fst (process_command env command s) = Inr r)
         \<and> (json_match text = None \<longrightarrow>
               parse_plan env text = Inr (fallback_plan text)
               \<and> py_get (fallback_plan text) ''actions'' JNull
                   = Inr (JArr [JObj [(''type'', JStr ''just_respond'')]])
               \<and> py_get (fallback_plan text) ''response'' JNull = Inr (JStr text)
               \<and> (\<exists>r. fst (process_command env command s) = Inr r
                      \<and> response r = JStr text \<and> actions r = []))"
proof (intro conjI impI)
  show "\<exists>r. fst (process_command env command s) = Inr r"
    by (rule process_command_returns)
next
  assume "json_match text = None"
  then show "parse_plan env text = Inr (fallback_plan text)"
    by (simp add: parse_plan_def)
next
  show "py_get (fallback_plan text) ''actions'' JNull
          = Inr (JArr [JObj [(''type'', JStr ''just_respond'')]])"
    by (simp add: fallback_plan_def py_get_def)
next
  show "py_get (fallback_plan text) ''response'' JNull = Inr (JStr text)"
    by (simp add: fallback_plan_def py_get_def)
next
  assume "json_match text = None"
  then show "\<exists>r. fst (process_command env command s) = Inr r \<and> response r = JStr text
                 \<and> actions r = []"
    by (rule process_command_fallback [OF cfg reply])
qed

text \<open>
  Claim C2, evaluated where it fails. The reply \<open>{plan}\<close> has braces around a text that
  is no JSON document: the pattern matches, \<open>json.loads\<close> raises at line 97, no plan is
  built, and the reply of \<open>process_command\<close> is the error message of the \<open>except\<close>
  clause and not the text of the model. A reply without braces does get the fallback:
  its text comes back as the response.
\<close>

theorem unparsable_reply_gets_error_reply:
  "json_match ''{plan}'' = Some ''{plan}''
   \<and> parse_plan garbled_env ''{plan}''
       = Inl (Error ''Expecting property name enclosed in double quotes: line 1 column 2 (char 1)'')
   \<and> fst (process_command garbled_env ''hello'' sample_state)
       = Inr \<lparr> response = JStr (cross_mark
                   @ '' Error: Expecting property name enclosed in double quotes: line 1 column 2 (char 1)''),
               code = None, language = None, actions = [] \<rparr>
   \<and> json_match ''hello there'' = None
   \<and> fst (process_command plain_env ''hello'' sample_state)
       = Inr \<lparr> response = JStr ''hello there'', code = None, language = None, actions = [] \<rparr>"
  by code_simp


section \<open>The Action Registry: calls and the trace\<close>

text \<open>No operation of the registry writes to the trace, and every call returns.\<close>

lemmas io_defs = try_except_def bind_def ret_def raise_def lift_pure_def lift_world_def

lemma init_driver_keeps_trace: "trace (snd (init_driver_io env s)) = trace s"
  by (simp add: init_driver_io_def split: prod.split)

lemma play_try_keeps_trace: "trace (snd (play_youtube_video_try env q s)) = trace s"
proof (cases "init_driver_io env s")
  case (Pair r s1)
  have s1: "trace s1 = trace s"
    using init_driver_keeps_trace [of env s] Pair by simp
  show ?thesis
    using Pair s1
    by (simp add: play_youtube_video_try_def io_defs split: prod.split sum.split)
qed

lemma play_keeps_trace: "trace (snd (play_youtube_video env q s)) = trace s"
proof (cases "play_youtube_video_try env q s")
  case (Pair r s1)
  have s1: "trace s1 = trace s"
    using play_try_keeps_trace [of env q s] Pair by simp
  show ?thesis
    using Pair s1
    by (simp add: play_youtube_video_def io_defs split: prod.split sum.split py_exception.split)
qed


lemma create_if_missing_keeps_trace: "trace (snd (create_if_missing env filepath s)) = trace s"
  by (simp add: create_if_missing_def io_defs split: prod.splits)

lemma create_file_keeps_trace: "trace (snd (create_file env a b s)) = trace s"
  by (auto simp: create_file_def create_file_try_def io_defs split: prod.splits sum.splits)

lemma open_idle_keeps_trace: "trace (snd (open_idle env a s)) = trace s"
  by (auto simp: open_idle_def open_idle_try_def io_defs create_if_missing_def split: prod.splits sum.splits)

lemma play_keeps_trace_pair: "play_youtube_video env q s = (r, s') \<Longrightarrow> trace s' = trace s"
  using play_keeps_trace [of env q s] by simp

lemma load_keeps_trace_pair: "load_browser_automation env s = (r, s') \<Longrightarrow> trace s' = trace s"
  by (auto simp: load_browser_automation_def split: prod.splits sum.splits py_exception.splits if_splits)

lemma open_youtube_keeps_trace: "trace (snd (open_youtube env q s)) = trace s"
  by (auto simp: open_youtube_def open_youtube_try_def io_defs
        dest!: play_keeps_trace_pair load_keeps_trace_pair
        split: prod.splits sum.splits if_splits)

lemma simple_ops_keep_trace:
  "trace (snd (open_notepad env a s)) = trace s"
  "trace (snd (open_vscode env a s)) = trace s"
  "trace (snd (run_python_code env a s)) = trace s"
  "trace (snd (execute_command env a s)) = trace s"
  "trace (snd (list_files env s)) = trace s"
  "trace (snd (read_file env a s)) = trace s"
  "trace (snd (open_browser env a s)) = trace s"
  "trace (snd (google_search env a s)) = trace s"
  "trace (snd (open_application env a s)) = trace s"
  "trace (snd (delete_file env a s)) = trace s"
  by (auto simp: open_notepad_def open_notepad_try_def open_vscode_def open_vscode_try_def
        run_python_code_def run_python_code_try_def execute_command_def execute_command_try_def
        list_files_def list_files_try_def read_file_def read_file_try_def
        open_browser_def open_browser_try_def google_search_def google_search_try_def
        open_application_def open_application_try_def delete_file_def delete_file_try_def
        io_defs create_if_missing_def
        split: prod.splits sum.splits py_exception.splits json.splits)

lemma run_call_keeps_trace: "trace (snd (run_call env c s)) = trace s"
  by (cases c) (simp_all add: create_file_keeps_trace open_idle_keeps_trace open_youtube_keeps_trace simple_ops_keep_trace)

lemma run_call_returns: "\<exists>r. fst (run_call env c s) = Inr r"
  by (cases c)
     (auto simp: create_file_def open_idle_def open_notepad_def open_vscode_def
        run_python_code_def execute_command_def list_files_def read_file_def open_browser_def
        open_youtube_def google_search_def open_application_def delete_file_def
        try_except_def ret_def split: prod.splits sum.splits py_exception.splits)

lemma invoke_result:
  "\<exists>r s'. invoke env c s = (Inr r, s') \<and> trace s' = trace s @ [Invoke c]"
proof -
  obtain r where r: "fst (run_call env c (s \<lparr> trace := trace s @ [Invoke c] \<rparr>)) = Inr r"
    using run_call_returns by blast
  have "trace (snd (run_call env c (s \<lparr> trace := trace s @ [Invoke c] \<rparr>))) = trace s @ [Invoke c]"
    by (simp add: run_call_keeps_trace)
  with r show ?thesis
    by (cases "run_call env c (s \<lparr> trace := trace s @ [Invoke c] \<rparr>)") (simp add: invoke_def)
qed


section \<open>Fenced code blocks\<close>

text \<open>The text before the first fence holds no fence, stripping a text adds none, so no
  block that \<open>_extract_code_blocks\<close> returns holds one.\<close>

lemma split_fence_decomp:
  "split_fence t = Some (a, b) \<Longrightarrow> t = a @ fence @ b"
proof (induction t arbitrary: a)
  case Nil
  then show ?case by simp
next
  case (Cons c cs)
  show ?case
  proof (cases "starts_with fence (c # cs)")
    case True
    then obtain r where r: "c # cs = fence @ r"
      by (auto simp: starts_with_iff)
    have "length fence = 3" by (simp add: fence_def)
    then have rest: "drop 3 (c # cs) = r" using r by (metis append_eq_conv_conj)
    from True Cons.prems have "a = []" and "b = drop 3 (c # cs)" by simp_all
    with rest r show ?thesis by simp
  next
    case False
    with Cons.prems obtain a' where a': "split_fence cs = Some (a', b)" and a: "a = c # a'"
      by (auto split: option.splits)
    from Cons.IH [OF a'] a show ?thesis by simp
  qed
qed

lemma starts_with_append: "starts_with p x \<Longrightarrow> starts_with p (x @ y)"
  by (auto simp: starts_with_iff)

lemma fence_not_empty: "fence \<noteq> []"
  by (simp add: fence_def)

lemma split_fence_clean:
  "split_fence t = Some (a, b) \<Longrightarrow> \<not> contains fence a"
proof (induction t arbitrary: a)
  case Nil
  then show ?case by simp
next
  case (Cons c cs)
  show ?case
  proof (cases "starts_with fence (c # cs)")
    case True
    with Cons.prems have "a = []" by simp
    then show ?thesis by (simp add: fence_not_empty)
  next
    case False
    with Cons.prems obtain a' where a': "split_fence cs = Some (a', b)" and a: "a = c # a'"
      by (auto split: option.splits)
    have clean: "\<not> contains fence a'" by (rule Cons.IH [OF a'])
    have whole: "c # cs = (c # a') @ fence @ b"
      using split_fence_decomp [OF a'] by simp
    have "\<not> starts_with fence (c # a')"
    proof
      assume "starts_with fence (c # a')"
      then have "starts_with fence ((c # a') @ fence @ b)" by (rule starts_with_append)
      with whole False show False by simp
    qed
    with clean a show ?thesis by simp
  qed
qed

lemma strip_inside: "\<exists>x y. s = x @ strip s @ y"
proof -
  have one: "s = takeWhile is_space s @ dropWhile is_space s" by simp
  have two: "dropWhile is_space s
               = rev (dropWhile is_space (rev (dropWhile is_space s)))
                 @ rev (takeWhile is_space (rev (dropWhile is_space s)))"
    by (metis rev_append rev_rev_ident takeWhile_dropWhile_id)
  have "s = takeWhile is_space s @ strip s @ rev (takeWhile is_space (rev (dropWhile is_space s)))"
    using one two by (metis strip_def)
  then show ?thesis by blast
qed

lemma strip_clean: "\<not> contains p s \<Longrightarrow> \<not> contains p (strip s)"
proof
  assume no: "\<not> contains p s" and yes: "contains p (strip s)"
  obtain x y where s: "s = x @ strip s @ y" using strip_inside by blast
  obtain a b where st: "strip s = a @ p @ b" using yes by (auto simp: contains_iff)
  have "s = (x @ a) @ p @ (b @ y)" using s st by (metis append.assoc)
  then have "contains p s" by (metis contains_mid)
  with no show False by simp
qed

lemma fence_match_clean:
  "fence_match t = Some (lang, inner, rest) \<Longrightarrow> \<not> contains fence inner"
  by (auto simp: fence_match_def split: if_splits list.splits option.splits dest: split_fence_clean)

lemma scan_blocks_clean:
  "b \<in> set (scan_blocks k t) \<Longrightarrow> \<not> contains fence (block_code b)"
proof (induction t arbitrary: k)
  case Nil
  then show ?case by simp
next
  case (Cons c cs)
  show ?case
  proof (cases "k > 0")
    case True
    with Cons show ?thesis by simp
  next
    case False
    show ?thesis
    proof (cases "fence_match (c # cs)")
      case None
      with False Cons show ?thesis by simp
    next
      case (Some m)
      obtain lang inner rest where m: "m = (lang, inner, rest)" by (cases m) auto
      have clean: "\<not> contains fence (strip inner)"
        using fence_match_clean Some m strip_clean by blast
      from Cons.prems False Some m
      consider "b = \<lparr> block_language = (if lang \<noteq> [] then lang else ''text''), block_code = strip inner \<rparr>"
        | "b \<in> set (scan_blocks (length cs - length rest) cs)"
        by auto
      then show ?thesis
      proof cases
        case 1
        with clean show ?thesis by simp
      next
        case 2
        then show ?thesis by (rule Cons.IH)
      qed
    qed
  qed
qed

lemma extract_code_blocks_clean:
  "extract_code_blocks t = b # bs \<Longrightarrow> \<not> contains fence (block_code b)"
  using scan_blocks_clean [of b 0 t] by (simp add: extract_code_blocks_def)


section \<open>The Plan Executor: a file without content\<close>

lemma map_of_dict_set:
  "map_of (dict_set kvs key v) k = (if k = key then Some v else map_of kvs k)"
  by (induction kvs key v rule: dict_set.induct) auto

lemma generate_file_content_eq:
  assumes intent: "py_item plan ''intent'' = Inr intent"
    and reply: "generate_content env (CodePrompt (py_str env intent)) (world s)
                  = (Inr (Some code_text), w')"
  shows "generate_file_content env plan s
           = (Inr (JStr (case extract_code_blocks code_text of
                           b # bs \<Rightarrow> block_code b | [] \<Rightarrow> code_text)),
              s \<lparr> trace := trace s @ [Generate (CodePrompt (py_str env intent))], world := w' \<rparr>)"
  by (simp add: generate_file_content_def bind_def lift_pure_def intent ask_model_eq [OF reply]
        text_of_def ret_def split: list.split)

lemma call_and_append_result:
  "\<exists>r s'. call_and_append env c action_results s = (Inr (action_results @ [r]), s')
          \<and> trace s' = trace s @ [Invoke c]"
proof -
  obtain r s' where "invoke env c s = (Inr r, s')" and "trace s' = trace s @ [Invoke c]"
    using invoke_result by blast
  then show ?thesis
    by (simp add: call_and_append_def bind_def ret_def)
qed

text \<open>
  A \<open>create_file\<close> step whose content is empty, in a plan that has an intent, with a
  model that answers the request: the loop asks the model for code for that intent, then
  calls \<open>create_file\<close>. The body it hands over is the stripped group of the first match
  of the pattern of \<open>_extract_code_blocks\<close> when the pattern matches, and then it holds no
  fence; otherwise it is the answer as it came.
\<close>

lemma create_file_generates_content:
  assumes tag: "py_get action ''type'' JNull = Inr (JStr ''create_file'')"
    and params: "py_get action ''params'' (JObj []) = Inr (JObj kvs)"
    and empty: "\<not> truthy (case map_of kvs ''content'' of Some v \<Rightarrow> v | None \<Rightarrow> JNull)"
    and intent: "py_item plan ''intent'' = Inr intent"
    and reply: "generate_content env (CodePrompt (py_str env intent)) (world s)
                  = (Inr (Some code_text), w')"
  shows "\<exists>r s' body.
           execute_action env plan action action_results s = (Inr (action_results @ [r]), s')
           \<and> trace s' = trace s
                 @ [Generate (CodePrompt (py_str env intent)),
                    Invoke (CreateFile
                      (case map_of kvs ''filename'' of Some v \<Rightarrow> v | None \<Rightarrow> JStr ''script.py'')
                      (JStr body))]
           \<and> (extract_code_blocks code_text = [] \<longrightarrow> body = code_text)
           \<and> (\<forall>b bs. extract_code_blocks code_text = b # bs \<longrightarrow>
                  body = block_code b \<and> \<not> contains fence body)"
proof -
  define body where
    "body = (case extract_code_blocks code_text of b # bs \<Rightarrow> block_code b | [] \<Rightarrow> code_text)"
  define s1 where
    "s1 = s \<lparr> trace := trace s @ [Generate (CodePrompt (py_str env intent))], world := w' \<rparr>"
  define filename where
    "filename = (case map_of kvs ''filename'' of Some v \<Rightarrow> v | None \<Rightarrow> JStr ''script.py'')"
  have generated: "generate_file_content env plan s = (Inr (JStr body), s1)"
    using generate_file_content_eq [OF intent reply] by (simp add: body_def s1_def)
  have had: "py_get (JObj kvs) ''content'' JNull
                 = Inr (case map_of kvs ''content'' of Some v \<Rightarrow> v | None \<Rightarrow> JNull)"
    by (simp add: py_get_def)
  have stored: "py_set (JObj kvs) ''content'' (JStr body)
                  = Inr (JObj (dict_set kvs ''content'' (JStr body)))"
    by (simp add: py_set_def)
  have name: "py_get (JObj (dict_set kvs ''content'' (JStr body))) ''filename'' (JStr ''script.py'')
                = Inr filename"
    by (simp add: py_get_def map_of_dict_set filename_def)
  have written: "py_get (JObj (dict_set kvs ''content'' (JStr body))) ''content'' (JStr [])
                = Inr (JStr body)"
    by (simp add: py_get_def map_of_dict_set)
  have step: "execute_action env plan action action_results s
                = call_and_append env (CreateFile filename (JStr body)) action_results s1"
    unfolding execute_action_def
    using empty
    by (simp add: bind_def lift_pure_def tag params had generated stored name written)
  obtain r s' where
    called: "call_and_append env (CreateFile filename (JStr body)) action_results s1
               = (Inr (action_results @ [r]), s')"
    and traced: "trace s' = trace s1 @ [Invoke (CreateFile filename (JStr body))]"
    using call_and_append_result by blast
  have "execute_action env plan action action_results s = (Inr (action_results @ [r]), s')"
    using step called by simp
  moreover have "trace s' = trace s
                   @ [Generate (CodePrompt (py_str env intent)),
                      Invoke (CreateFile filename (JStr body))]"
    using traced by (simp add: s1_def)
  moreover have "extract_code_blocks code_text = [] \<longrightarrow> body = code_text"
    by (simp add: body_def)
  moreover have "\<forall>b bs. extract_code_blocks code_text = b # bs \<longrightarrow>
                   body = block_code b \<and> \<not> contains fence body"
    using extract_code_blocks_clean by (auto simp: body_def)
  ultimately show ?thesis
    unfolding filename_def by blast
qed

text \<open>
  Claim C4, evaluated where it fails. The answer of the model is a fenced block whose
  opening fence has a space behind the language: the pattern of \<open>_extract_code_blocks\<close>
  wants the line feed right behind the language and finds no block, so the answer as it
  came, fences included, is the body that \<open>create_file\<close> writes.
\<close>

theorem fenced_reply_written_with_fences:
  "spaced_fence_reply = fence @ ''python '' @ [newline] @ ''print(1)'' @ [newline] @ fence
   \<and> extract_code_blocks spaced_fence_reply = []
   \<and> contains fence spaced_fence_reply
   \<and> fst (execute_action spaced_fence_env sample_plan bare_create_step [] sample_state)
       = Inr [\<lparr> success = True,
                 message = check_mark @ '' File created: /home/user/AI_Workspace/a.py'',
                 extras = [(''filepath'', JStr ''/home/user/AI_Workspace/a.py'')] \<rparr>]
   \<and> trace (snd (execute_action spaced_fence_env sample_plan bare_create_step [] sample_state))
       = [Generate (CodePrompt ''notes''),
          Invoke (CreateFile (JStr ''a.py'') (JStr spaced_fence_reply))]
   \<and> world (snd (execute_action spaced_fence_env sample_plan bare_create_step [] sample_state))
       = [''model'', ''write /home/user/AI_Workspace/a.py'', spaced_fence_reply]"
  by code_simp

section \<open>The Plan Executor: the loop over the steps\<close>





text \<open>One step of the loop does what the step names.\<close>

lemma call_and_append_eq:
  "call_and_append env c rs = bind (registry_call env c) (\<lambda>r. ret (rs @ [r]))"
  by (rule ext) (simp add: call_and_append_def invoke_def registry_call_def bind_def)

lemma perform_one_call:
  "perform env plan [Call c] rs s = call_and_append env c rs s"
  by (simp add: call_and_append_eq)



















end
